theory Spec2Isabelle
  imports Complex_Main "HOL-Library.AList"
begin

section \<open>JavaScript numbers\<close>

text \<open>
  The balance, the amount to send and the satoshi value of an output are JavaScript
  numbers: IEEE 754 binary64 values. A finite value is carried as the rational it denotes,
  next to \<open>NaN\<close> and the two infinities. The sign of zero is not kept: no operation of
  \<^verbatim>\<open>App.tsx\<close> observes it (\<^verbatim>\<open>-0 === 0\<close>, \<^verbatim>\<open>-0 <= 0\<close>).
\<close>

datatype jsnum = NaN | PInf | NInf | Fin rat

function bitlen :: "int \<Rightarrow> int" where
  "bitlen n = (if n \<le> 0 then 0 else 1 + bitlen (n div 2))"
  by pat_completeness auto
termination
  by (relation "measure nat") auto

declare bitlen.simps [simp del]

definition pow2 :: "int \<Rightarrow> rat" where
  "pow2 k = (if 0 \<le> k then 2 ^ nat k else 1 / 2 ^ nat (- k))"

text \<open>\<open>ilog2 a\<close> is the binary exponent of a positive rational: \<open>2^e \<le> a < 2^(e+1)\<close>.\<close>

definition ilog2 :: "rat \<Rightarrow> int" where
  "ilog2 a = (let (n, d) = quotient_of a;
                  k = bitlen n - bitlen d
              in if pow2 k \<le> a then k else k - 1)"

definition round_half_even :: "rat \<Rightarrow> int" where
  "round_half_even m = (let f = \<lfloor>m\<rfloor>; d = m - of_int f in
     if d < 1 / 2 then f else if 1 / 2 < d then f + 1 else if even f then f else f + 1)"

text \<open>
  \<open>fl q\<close> rounds a rational to the nearest binary64 value, ties to even: 53 significant
  bits, the least exponent of a subnormal \<open>-1074\<close>, overflow to an infinity from
  \<open>2^1024\<close> on. Every arithmetic operator of JavaScript returns the exact result so rounded.
\<close>

definition fl :: "rat \<Rightarrow> jsnum" where
  "fl q = (if q = 0 then Fin 0 else
     let a = \<bar>q\<bar>; e = ilog2 a; p = max (e - 52) (- 1074);
         r = round_half_even (a / pow2 p)
     in if 971 < p \<or> (p = 971 \<and> r = 9007199254740992) then (if 0 < q then PInf else NInf)
        else Fin (sgn q * (of_int r * pow2 p)))"

text \<open>An integer literal of a JSON text, as \<^verbatim>\<open>JSON.parse\<close> reads it.\<close>

definition js_of_int :: "int \<Rightarrow> jsnum" where
  "js_of_int n = fl (of_int n)"

text \<open>The operator \<^verbatim>\<open>+\<close> on two numbers.\<close>

fun js_add :: "jsnum \<Rightarrow> jsnum \<Rightarrow> jsnum" where
  "js_add (Fin a) (Fin b) = fl (a + b)"
| "js_add NaN _ = NaN"
| "js_add _ NaN = NaN"
| "js_add PInf NInf = NaN"
| "js_add NInf PInf = NaN"
| "js_add PInf _ = PInf"
| "js_add NInf _ = NInf"
| "js_add _ PInf = PInf"
| "js_add _ NInf = NInf"

text \<open>The operator \<^verbatim>\<open>*\<close>.\<close>

fun js_mul :: "jsnum \<Rightarrow> jsnum \<Rightarrow> jsnum" where
  "js_mul (Fin a) (Fin b) = fl (a * b)"
| "js_mul NaN _ = NaN"
| "js_mul _ NaN = NaN"
| "js_mul PInf (Fin b) = (if b = 0 then NaN else if 0 < b then PInf else NInf)"
| "js_mul NInf (Fin b) = (if b = 0 then NaN else if 0 < b then NInf else PInf)"
| "js_mul (Fin a) PInf = (if a = 0 then NaN else if 0 < a then PInf else NInf)"
| "js_mul (Fin a) NInf = (if a = 0 then NaN else if 0 < a then NInf else PInf)"
| "js_mul PInf PInf = PInf"
| "js_mul NInf NInf = PInf"
| "js_mul PInf NInf = NInf"
| "js_mul NInf PInf = NInf"

text \<open>The operator \<^verbatim>\<open>/\<close>; a zero divisor is taken as \<open>+0\<close>.\<close>

fun js_div :: "jsnum \<Rightarrow> jsnum \<Rightarrow> jsnum" where
  "js_div (Fin a) (Fin b) =
     (if b = 0 then (if a = 0 then NaN else if 0 < a then PInf else NInf) else fl (a / b))"
| "js_div NaN _ = NaN"
| "js_div _ NaN = NaN"
| "js_div (Fin a) PInf = Fin 0"
| "js_div (Fin a) NInf = Fin 0"
| "js_div PInf (Fin b) = (if 0 \<le> b then PInf else NInf)"
| "js_div NInf (Fin b) = (if 0 \<le> b then NInf else PInf)"
| "js_div PInf PInf = NaN"
| "js_div PInf NInf = NaN"
| "js_div NInf PInf = NaN"
| "js_div NInf NInf = NaN"

text \<open>The comparisons \<^verbatim>\<open><\<close>, \<^verbatim>\<open><=\<close> and \<^verbatim>\<open>===\<close>: each is false when an operand is \<open>NaN\<close>.\<close>

definition js_lt :: "jsnum \<Rightarrow> jsnum \<Rightarrow> bool" where
  "js_lt x y = (case (x, y) of
       (Fin a, Fin b) \<Rightarrow> a < b
     | (NInf, Fin b) \<Rightarrow> True
     | (NInf, PInf) \<Rightarrow> True
     | (Fin a, PInf) \<Rightarrow> True
     | _ \<Rightarrow> False)"

definition js_eq :: "jsnum \<Rightarrow> jsnum \<Rightarrow> bool" where
  "js_eq x y = (x \<noteq> NaN \<and> x = y)"

definition js_le :: "jsnum \<Rightarrow> jsnum \<Rightarrow> bool" where
  "js_le x y = (js_lt x y \<or> js_eq x y)"

definition isNaN :: "jsnum \<Rightarrow> bool" where
  "isNaN x = (x = NaN)"

text \<open>
  \<^verbatim>\<open>Math.round\<close>: the nearest integer, a tie going up. The result needs no rounding of
  its own: a binary64 value of magnitude \<open>2^52\<close> or more is an integer already.
\<close>

fun Math_round :: "jsnum \<Rightarrow> jsnum" where
  "Math_round (Fin q) = Fin (of_int \<lfloor>q + 1 / 2\<rfloor>)"
| "Math_round x = x"

section \<open>Data model\<close>

datatype network = Mainnet | Testnet

text \<open>
  A thrown value: \<^verbatim>\<open>null\<close>, \<^verbatim>\<open>undefined\<close>, or any other value, kept as its \<^verbatim>\<open>message\<close>
  property (\<open>None\<close> when the value has none). Reading a property of the first two
  throws in its turn.
\<close>

datatype js_error = Thrown "string option" | ThrownNull | ThrownUndefined

text \<open>Truthiness of a string-or-undefined value: undefined and the empty string are falsy.\<close>

fun truthy :: "string option \<Rightarrow> bool" where
  "truthy None = False"
| "truthy (Some s) = (s \<noteq> [])"

record getPublicKeyArgs =
  protocolID :: "nat \<times> string"
  keyID :: string
  counterparty :: string
  forSelf :: bool

record createActionInput =
  outpoint :: string
  inputDescription :: string
  unlockingScriptLength :: nat

record createActionOutput =
  lockingScript :: string
  satoshis :: jsnum
  outputDescription :: string

record createActionArgs =
  description :: string
  inputBEEF :: "nat list option"
  inputs :: "createActionInput list option"
  outputs :: "createActionOutput list option"

record signableTransaction =
  tx :: "nat list"
  reference :: string

record createActionResult =
  txid :: "string option"
  signable :: "signableTransaction option"

text \<open>
  \<^verbatim>\<open>SignActionArgs\<close>: \<open>spends\<close> is the object filled by \<^verbatim>\<open>spends[i] = {unlockingScript}\<close>,
  kept as an association list from input index to the script's hex text.
\<close>

record signActionArgs =
  sa_reference :: string
  spends :: "(nat \<times> string) list"

text \<open>
  Modelled from the spec: the types of the two payloads of the block explorer, which the
  source reads as \<^verbatim>\<open>any\<close>. Section 6 of the specification gives the balance payload the
  integer fields \<open>confirmed\<close> and \<open>unconfirmed\<close> and makes the unspent payload a list of
  entries with \<open>tx_hash\<close> and \<open>tx_pos\<close>; the field names are those the source reads. A
  field holds the number \<^verbatim>\<open>JSON.parse\<close> made of it.
\<close>

record utxo =
  tx_hash :: string
  tx_pos :: nat

datatype json =
    BalanceJSON (confirmed: jsnum) (unconfirmed: jsnum)
  | UnspentJSON "utxo list"

text \<open>
  What a run does to the outside world, in order: the calls to the wallet, the HTTP
  requests, the calls to the unlocker and the alerts shown to the user.
\<close>

datatype 'tx event =
    GetNetwork
  | GetPublicKey getPublicKeyArgs
  | HttpGet string
  | CreateAction createActionArgs
  | SignAction signActionArgs
  | AbortAction string
  | UnlockerSign 'tx nat
  | Alert string

text \<open>
  The collaborators. An effectful operation answers as a function of the events so far
  and of its arguments, which covers every deterministic wallet, explorer and signer,
  stateful ones included; it answers \<open>Inl e\<close> when it throws \<open>e\<close>. The unlocker is the
  object \<^verbatim>\<open>new Importer().unlock(client)\<close> of \<^verbatim>\<open>./Importer\<close>, a module whose
  code is outside this development: \<open>unlocker_sign\<close> stands for its \<^verbatim>\<open>sign(tx, i)\<close> followed by \<^verbatim>\<open>toHex()\<close>,
  and building the object is taken not to throw. The remaining fields are pure functions of
  the SDK and of the language: \<^verbatim>\<open>PublicKey.fromString(k).toAddress(n)\<close>,
  \<^verbatim>\<open>new P2PKH().lock(a).toHex()\<close>, \<^verbatim>\<open>Transaction.fromAtomicBEEF\<close>, \<^verbatim>\<open>new Beef().toBinary()\<close>,
  \<^verbatim>\<open>Number(s)\<close> and \<^verbatim>\<open>n.toString()\<close>.
\<close>

record 'tx env =
  getNetwork :: "'tx event list \<Rightarrow> js_error + network"
  getPublicKey :: "'tx event list \<Rightarrow> getPublicKeyArgs \<Rightarrow> js_error + string"
  fetch_json :: "'tx event list \<Rightarrow> string \<Rightarrow> js_error + json"
  createAction :: "'tx event list \<Rightarrow> createActionArgs \<Rightarrow> js_error + createActionResult"
  signAction :: "'tx event list \<Rightarrow> signActionArgs \<Rightarrow> js_error + unit"
  abortAction :: "'tx event list \<Rightarrow> string \<Rightarrow> js_error + unit"
  unlocker_sign :: "'tx event list \<Rightarrow> 'tx \<Rightarrow> nat \<Rightarrow> js_error + string"
  toAddress :: "string \<Rightarrow> network \<Rightarrow> js_error + string"
  p2pkh_lock :: "string \<Rightarrow> js_error + string"
  fromAtomicBEEF :: "nat list \<Rightarrow> js_error + 'tx"
  emptyBeef :: "nat list"
  toNumber :: "string \<Rightarrow> jsnum"
  numToString :: "jsnum \<Rightarrow> string"

text \<open>The two versions of \<^verbatim>\<open>App.tsx\<close> in the source.\<close>

datatype variant = V1 | V2

record shouted =
  s_txid :: string
  s_to :: string
  s_amount :: string

text \<open>The state of the component \<^verbatim>\<open>Mountaintops\<close> (its \<^verbatim>\<open>useState\<close> cells).\<close>

record ui_state =
  mountaintopsAddress :: "string option"
  balance :: jsnum
  recipientAddress :: string
  amount :: string
  transactions :: "shouted list"

definition initial_state :: ui_state where
  "initial_state = \<lparr>mountaintopsAddress = None, balance = Fin (- 1), recipientAddress = [],
     amount = [], transactions = []\<rparr>"

section \<open>Awaited calls\<close>

text \<open>
  An asynchronous function takes the events so far and returns its result, \<open>Inl e\<close> for
  a rejection with \<open>e\<close>, with the events extended. \<open>perform\<close> is one awaited call,
  \<open>bindE\<close> is sequencing: a rejection skips the rest.
\<close>

type_synonym ('tx, 'a) io = "'tx event list \<Rightarrow> (js_error + 'a) \<times> 'tx event list"

definition perform :: "'tx event \<Rightarrow> ('tx event list \<Rightarrow> js_error + 'a) \<Rightarrow> ('tx, 'a) io" where
  "perform ev answer h = (answer h, h @ [ev])"

definition bindE :: "('tx, 'a) io \<Rightarrow> ('a \<Rightarrow> ('tx, 'b) io) \<Rightarrow> ('tx, 'b) io" where
  "bindE m f h = (case m h of (Inl e, h') \<Rightarrow> (Inl e, h') | (Inr a, h') \<Rightarrow> f a h')"

definition pure_call :: "js_error + 'a \<Rightarrow> ('tx, 'a) io" where
  "pure_call r h = (r, h)"

definition alert :: "string \<Rightarrow> ('tx, unit) io" where
  "alert msg h = (Inr (), h @ [Alert msg])"

section \<open>The functions of \<^verbatim>\<open>App.tsx\<close>\<close>

definition getRealWalletNetwork :: "'tx env \<Rightarrow> ('tx, network) io" where
  "getRealWalletNetwork env = perform GetNetwork (getNetwork env)"

definition mountaintops_key :: getPublicKeyArgs where
  "mountaintops_key = \<lparr>protocolID = (1, ''mountaintops''), keyID = ''1'',
     counterparty = ''anyone'', forSelf = True\<rparr>"

definition getMountaintopsAddress :: "'tx env \<Rightarrow> ('tx, string) io" where
  "getMountaintopsAddress env =
     bindE (getRealWalletNetwork env) (\<lambda>network.
     bindE (perform (GetPublicKey mountaintops_key)
              (\<lambda>h. getPublicKey env h mountaintops_key)) (\<lambda>publicKey.
     pure_call (toAddress env publicKey network)))"

definition balance_url :: "network \<Rightarrow> string \<Rightarrow> string" where
  "balance_url network address =
     ''https://api.whatsonchain.com/v1/bsv/'' @ (if network = Mainnet then ''main'' else ''test'')
       @ ''/address/'' @ address @ ''/balance''"

text \<open>
  \<^verbatim>\<open>balanceJSON.confirmed + balanceJSON.unconfirmed\<close>: an array has neither property, and
  \<^verbatim>\<open>undefined + undefined\<close> is \<open>NaN\<close>.
\<close>

fun balance_sum :: "json \<Rightarrow> jsnum" where
  "balance_sum (BalanceJSON c u) = js_add c u"
| "balance_sum (UnspentJSON xs) = NaN"

definition fetchBSVBalance :: "'tx env \<Rightarrow> string \<Rightarrow> ('tx, jsnum) io" where
  "fetchBSVBalance env address =
     bindE (getRealWalletNetwork env) (\<lambda>network.
     bindE (perform (HttpGet (balance_url network address))
              (\<lambda>h. fetch_json env h (balance_url network address))) (\<lambda>balanceJSON.
     pure_call (Inr (js_div (balance_sum balanceJSON) (Fin 100000000)))))"

definition mainnet_alert :: "variant \<Rightarrow> string" where
  "mainnet_alert v = (case v of
       V1 \<Rightarrow> ''You are on mainnet but the recipient address does not start with 1!''
     | V2 \<Rightarrow> ''You are on mainnet but the recipient address does not look like a mainnet address (starting with 1)!'')"

definition startsWith :: "string \<Rightarrow> string \<Rightarrow> bool" where
  "startsWith s p = (take (length p) s = p)"

definition send_args :: "string \<Rightarrow> jsnum \<Rightarrow> createActionArgs" where
  "send_args script amt = \<lparr>description = ''Shout BSV at an address'', inputBEEF = None,
     inputs = None,
     outputs = Some [\<lparr>lockingScript = script,
                      satoshis = Math_round (js_mul amt (Fin 100000000)),
                      outputDescription = ''BSV for recipient address''\<rparr>]\<rparr>"

definition sendBSV :: "variant \<Rightarrow> 'tx env \<Rightarrow> string \<Rightarrow> jsnum \<Rightarrow> ('tx, string option) io" where
  "sendBSV v env to amt =
     bindE (getRealWalletNetwork env) (\<lambda>network.
     if network = Mainnet \<and> \<not> startsWith to ''1''
     then bindE (alert (mainnet_alert v)) (\<lambda>_. pure_call (Inr None))
     else bindE (pure_call (p2pkh_lock env to)) (\<lambda>script.
          bindE (perform (CreateAction (send_args script amt))
                   (\<lambda>h. createAction env h (send_args script amt))) (\<lambda>res.
          pure_call (Inr (txid res)))))"

subsection \<open>The import flow\<close>

definition unspent_url :: "network \<Rightarrow> string \<Rightarrow> string" where
  "unspent_url network address =
     ''https://api.whatsonchain.com/v1/bsv/'' @ (if network = Testnet then ''test'' else ''main'')
       @ ''/address/'' @ address @ ''/unspent''"

text \<open>The decimal text of an output index, as the template literal renders it.\<close>

fun string_of_nat :: "nat \<Rightarrow> string" where
  "string_of_nat n = (if n < 10 then [''0123456789'' ! n]
     else string_of_nat (n div 10) @ [''0123456789'' ! (n mod 10)])"

declare string_of_nat.simps [simp del]

definition mk_input :: "utxo \<Rightarrow> createActionInput" where
  "mk_input x = \<lparr>outpoint = tx_hash x @ ''.'' @ string_of_nat (tx_pos x),
     inputDescription = ''Redeem from the Mountaintops'', unlockingScriptLength = 108\<rparr>"

text \<open>\<^verbatim>\<open>UTXOJson.map(...)\<close>: a TypeError when the payload is not an array.\<close>

fun map_inputs :: "json \<Rightarrow> js_error + createActionInput list" where
  "map_inputs (UnspentJSON xs) = Inr (map mk_input xs)"
| "map_inputs (BalanceJSON c u) = Inl (Thrown (Some ''UTXOJson.map is not a function''))"

text \<open>
  The argument of \<^verbatim>\<open>createAction\<close>. The first version passes the placeholder \<^verbatim>\<open>[1]\<close> as
  \<^verbatim>\<open>inputBEEF\<close>; the second passes \<^verbatim>\<open>new Beef().toBinary()\<close>, its loop over the inputs
  having an empty body.
\<close>

definition import_args :: "variant \<Rightarrow> 'tx env \<Rightarrow> createActionInput list \<Rightarrow> createActionArgs" where
  "import_args v env ins = \<lparr>description = ''Import from the Mountaintops'',
     inputBEEF = Some (case v of V1 \<Rightarrow> [1] | V2 \<Rightarrow> emptyBeef env),
     inputs = Some ins, outputs = None\<rparr>"

text \<open>
  The try block up to the assignment of \<^verbatim>\<open>reference\<close>. Reading \<^verbatim>\<open>.reference\<close> of an
  undefined \<^verbatim>\<open>signableTransaction\<close> throws a TypeError, before the assignment.
\<close>

definition import_request ::
  "variant \<Rightarrow> 'tx env \<Rightarrow> string \<Rightarrow> ('tx, createActionInput list \<times> signableTransaction) io" where
  "import_request v env address =
     bindE (getRealWalletNetwork env) (\<lambda>network.
     bindE (perform (HttpGet (unspent_url network address))
              (\<lambda>h. fetch_json env h (unspent_url network address))) (\<lambda>UTXOJson.
     bindE (pure_call (map_inputs UTXOJson)) (\<lambda>ins.
     bindE (perform (CreateAction (import_args v env ins))
              (\<lambda>h. createAction env h (import_args v env ins))) (\<lambda>res.
     case signable res of
       None \<Rightarrow> pure_call (Inl (Thrown (Some
                 ''Cannot read properties of undefined (reading 'reference')'')))
     | Some s \<Rightarrow> pure_call (Inr (ins, s))))))"

text \<open>The loop \<^verbatim>\<open>for (let i = 0; i < inputs.length; i++)\<close> from index \<open>i\<close> on.\<close>

function sign_loop ::
  "'tx env \<Rightarrow> 'tx \<Rightarrow> nat \<Rightarrow> nat \<Rightarrow> (nat \<times> string) list \<Rightarrow> ('tx, (nat \<times> string) list) io" where
  "sign_loop env t n i sp h =
     (if i < n then
        (case perform (UnlockerSign t i) (\<lambda>h. unlocker_sign env h t i) h of
           (Inl e, h') \<Rightarrow> (Inl e, h')
         | (Inr script, h') \<Rightarrow> sign_loop env t n (Suc i) (AList.update i script sp) h')
      else (Inr sp, h))"
  by pat_completeness auto
termination
  by (relation "measure (\<lambda>(env, t, n, i, sp, h). n - i)") auto

declare sign_loop.simps [simp del]

text \<open>The try block after the assignment of \<^verbatim>\<open>reference\<close>, up to \<^verbatim>\<open>signAction\<close>.\<close>

definition import_sign ::
  "'tx env \<Rightarrow> createActionInput list \<Rightarrow> signableTransaction \<Rightarrow> ('tx, unit) io" where
  "import_sign env ins s =
     bindE (pure_call (fromAtomicBEEF env (tx s))) (\<lambda>t.
     bindE (sign_loop env t (length ins) 0 []) (\<lambda>sp.
     perform (SignAction \<lparr>sa_reference = reference s, spends = sp\<rparr>)
       (\<lambda>h. signAction env h \<lparr>sa_reference = reference s, spends = sp\<rparr>)))"

text \<open>
  The try block: its result, the value of the variable \<^verbatim>\<open>reference\<close> when it ends or
  throws, and the events.
\<close>

definition import_try ::
  "variant \<Rightarrow> 'tx env \<Rightarrow> string \<Rightarrow> 'tx event list
     \<Rightarrow> (js_error + unit) \<times> string option \<times> 'tx event list" where
  "import_try v env address h =
     (case import_request v env address h of
        (Inl e, h1) \<Rightarrow> (Inl e, None, h1)
      | (Inr (ins, s), h1) \<Rightarrow>
          (case import_sign env ins s h1 of (r, h2) \<Rightarrow> (r, Some (reference s), h2)))"

text \<open>
  The message of the catch block,
  \<^verbatim>\<open>`Import failed: ${(e as any).message || 'unknown error'}`\<close>: a TypeError when \<open>e\<close> is
  \<^verbatim>\<open>null\<close> or \<^verbatim>\<open>undefined\<close>.
\<close>

fun import_failed :: "js_error \<Rightarrow> js_error + string" where
  "import_failed (Thrown None) = Inr ''Import failed: unknown error''"
| "import_failed (Thrown (Some m)) =
     Inr (''Import failed: '' @ (if m = [] then ''unknown error'' else m))"
| "import_failed ThrownNull =
     Inl (Thrown (Some ''Cannot read properties of null (reading 'message')''))"
| "import_failed ThrownUndefined =
     Inl (Thrown (Some ''Cannot read properties of undefined (reading 'message')''))"

text \<open>
  The catch block: the abort when \<^verbatim>\<open>reference\<close> is truthy, then the message, then the
  alert. Whatever throws on the way leaves the handler before its alert.
\<close>

definition import_catch ::
  "'tx env \<Rightarrow> string option \<Rightarrow> js_error \<Rightarrow> ('tx, unit) io" where
  "import_catch env ref e =
     bindE (if truthy ref
            then perform (AbortAction (the ref)) (\<lambda>h. abortAction env h (the ref))
            else pure_call (Inr ())) (\<lambda>_.
     bindE (pure_call (import_failed e)) (\<lambda>message.
     alert message))"

definition import_done :: "variant \<Rightarrow> ('tx, unit) io" where
  "import_done v = (case v of V1 \<Rightarrow> pure_call (Inr ())
     | V2 \<Rightarrow> alert ''Funds successfully imported to your real wallet!'')"

text \<open>
  A handler returns the settlement of its promise, the state of the component and the
  events.
\<close>

definition handleImportFunds ::
  "variant \<Rightarrow> 'tx env \<Rightarrow> ui_state \<Rightarrow> 'tx event list
     \<Rightarrow> (js_error + unit) \<times> ui_state \<times> 'tx event list" where
  "handleImportFunds v env st h =
     (if \<not> truthy (mountaintopsAddress st) \<or> js_lt (balance st) (Fin 0)
      then (case alert ''Get your address and balance first!'' h of (r, h') \<Rightarrow> (r, st, h'))
      else if js_eq (balance st) (Fin 0)
      then (case alert ''No money to import!'' h of (r, h') \<Rightarrow> (r, st, h'))
      else (case import_try v env (the (mountaintopsAddress st)) h of
              (Inr u, ref, h1) \<Rightarrow>
                (case import_done v h1 of (r, h2) \<Rightarrow> (r, st\<lparr>balance := Fin 0\<rparr>, h2))
            | (Inl e, ref, h1) \<Rightarrow>
                (case import_catch env ref e h1 of (r, h2) \<Rightarrow> (r, st, h2))))"

subsection \<open>The other handlers\<close>

definition handleViewAddress ::
  "'tx env \<Rightarrow> ui_state \<Rightarrow> 'tx event list \<Rightarrow> (js_error + unit) \<times> ui_state \<times> 'tx event list" where
  "handleViewAddress env st h =
     (case getMountaintopsAddress env h of
        (Inl e, h') \<Rightarrow> (Inl e, st, h')
      | (Inr a, h') \<Rightarrow> (Inr (), st\<lparr>mountaintopsAddress := Some a\<rparr>, h'))"

definition handleGetBalance ::
  "'tx env \<Rightarrow> ui_state \<Rightarrow> 'tx event list \<Rightarrow> (js_error + unit) \<times> ui_state \<times> 'tx event list" where
  "handleGetBalance env st h =
     (if truthy (mountaintopsAddress st)
      then (case fetchBSVBalance env (the (mountaintopsAddress st)) h of
              (Inl e, h') \<Rightarrow> (Inl e, st, h')
            | (Inr b, h') \<Rightarrow> (Inr (), st\<lparr>balance := b\<rparr>, h'))
      else (case alert ''Get your address first!'' h of (r, h') \<Rightarrow> (r, st, h')))"

definition shout_alert :: "'tx env \<Rightarrow> jsnum \<Rightarrow> string \<Rightarrow> string \<Rightarrow> string" where
  "shout_alert env amt to t = ''Successfully SHOUTED '' @ numToString env amt
     @ '' BSV from your real wallet to '' @ to @ '' with absolutely no privacy! TXID: '' @ t"

text \<open>
  \<^verbatim>\<open>handleShoutBSV\<close>; the sound effect is left out (a failure of \<^verbatim>\<open>play()\<close> is caught
  and dropped by the source).
\<close>

definition handleShoutBSV ::
  "variant \<Rightarrow> 'tx env \<Rightarrow> ui_state \<Rightarrow> 'tx event list
     \<Rightarrow> (js_error + unit) \<times> ui_state \<times> 'tx event list" where
  "handleShoutBSV v env st h =
     (if recipientAddress st = [] \<or> amount st = []
      then (case alert ''Please enter a recipient address AND an amount first!'' h of
              (r, h') \<Rightarrow> (r, st, h'))
      else let amt = toNumber env (amount st) in
        if isNaN amt \<or> js_le amt (Fin 0)
        then (case alert ''Please enter a valid amount > 0.'' h of (r, h') \<Rightarrow> (r, st, h'))
        else (case sendBSV v env (recipientAddress st) amt h of
                (Inl e, h1) \<Rightarrow> (Inl e, st, h1)
              | (Inr t, h1) \<Rightarrow>
                  if truthy t
                  then (case alert (shout_alert env amt (recipientAddress st) (the t)) h1 of
                          (r, h2) \<Rightarrow>
                            (r, st\<lparr>transactions := transactions st @
                                       [\<lparr>s_txid = the t, s_to = recipientAddress st,
                                         s_amount = numToString env amt\<rparr>],
                                     recipientAddress := [], amount := []\<rparr>, h2))
                  else (Inr (), st, h1)))"

subsection \<open>Reading a trace\<close>

fun abort_refs :: "'tx event list \<Rightarrow> string list" where
  "abort_refs [] = []"
| "abort_refs (AbortAction r # es) = r # abort_refs es"
| "abort_refs (e # es) = abort_refs es"

fun sign_indices :: "'tx event list \<Rightarrow> nat list" where
  "sign_indices [] = []"
| "sign_indices (UnlockerSign t i # es) = i # sign_indices es"
| "sign_indices (e # es) = sign_indices es"

fun alerts :: "'tx event list \<Rightarrow> string list" where
  "alerts [] = []"
| "alerts (Alert m # es) = m # alerts es"
| "alerts (e # es) = alerts es"

text \<open>The calls that leave the page: to the wallet, to the explorer, to the unlocker.\<close>

fun external_calls :: "'tx event list \<Rightarrow> 'tx event list" where
  "external_calls [] = []"
| "external_calls (Alert m # es) = external_calls es"
| "external_calls (e # es) = e # external_calls es"

fun created :: "'tx event list \<Rightarrow> createActionArgs list" where
  "created [] = []"
| "created (CreateAction a # es) = a # created es"
| "created (e # es) = created es"

fun signed :: "'tx event list \<Rightarrow> signActionArgs list" where
  "signed [] = []"
| "signed (SignAction a # es) = a # signed es"
| "signed (e # es) = signed es"

section \<open>Fixtures\<close>

text \<open>
  A wallet, explorer and signer with fixed answers, and a state of the component after
  the address and a balance of 1.5 BSV have been fetched: the concrete inputs on which
  the theorems below are instantiated.
\<close>

definition fixture_env ::
  "network \<Rightarrow> json \<Rightarrow> createActionResult \<Rightarrow> (nat \<Rightarrow> js_error + string)
     \<Rightarrow> (js_error + unit) \<Rightarrow> nat list env" where
  "fixture_env n j res sg ab = \<lparr>
     getNetwork = (\<lambda>h. Inr n),
     getPublicKey = (\<lambda>h a. Inr ''02ab''),
     fetch_json = (\<lambda>h url. Inr j),
     createAction = (\<lambda>h a. Inr res),
     signAction = (\<lambda>h a. Inr ()),
     abortAction = (\<lambda>h r. ab),
     unlocker_sign = (\<lambda>h t i. sg i),
     toAddress = (\<lambda>k n. Inr (case n of Mainnet \<Rightarrow> ''1'' @ k | Testnet \<Rightarrow> ''m'' @ k)),
     p2pkh_lock = (\<lambda>a. Inr (''76a914'' @ a @ ''88ac'')),
     fromAtomicBEEF = (\<lambda>b. Inr b),
     emptyBeef = [],
     toNumber = (\<lambda>s. if s = ''0.01'' then fl (1 / 100)
                      else if s = ''0.07'' then fl (7 / 100) else NaN),
     numToString = (\<lambda>x. if x = fl (7 / 100) then ''0.07'' else ''0.01'')\<rparr>"

definition funded_state :: ui_state where
  "funded_state = \<lparr>mountaintopsAddress = Some ''1Bridge'', balance = Fin (3 / 2),
     recipientAddress = [], amount = [], transactions = []\<rparr>"

definition three_utxos :: json where
  "three_utxos = UnspentJSON [\<lparr>tx_hash = ''aa'', tx_pos = 0\<rparr>, \<lparr>tx_hash = ''bb'', tx_pos = 1\<rparr>,
     \<lparr>tx_hash = ''cc'', tx_pos = 12\<rparr>]"

definition pending_R :: createActionResult where
  "pending_R = \<lparr>txid = None, signable = Some \<lparr>tx = [1, 2, 3], reference = ''R''\<rparr>\<rparr>"

definition sign_fails_on_second :: "nat \<Rightarrow> js_error + string" where
  "sign_fails_on_second i = (if i = 1 then Inl (Thrown (Some ''sign failed'')) else Inr ''483045'')"

definition three_inputs :: "createActionInput list" where
  "three_inputs = [
     \<lparr>outpoint = ''aa.0'', inputDescription = ''Redeem from the Mountaintops'', unlockingScriptLength = 108\<rparr>,
     \<lparr>outpoint = ''bb.1'', inputDescription = ''Redeem from the Mountaintops'', unlockingScriptLength = 108\<rparr>,
     \<lparr>outpoint = ''cc.12'', inputDescription = ''Redeem from the Mountaintops'', unlockingScriptLength = 108\<rparr>]"

definition failed_signing_trace :: "nat list event list" where
  "failed_signing_trace = [GetNetwork,
     HttpGet ''https://api.whatsonchain.com/v1/bsv/main/address/1Bridge/unspent'',
     CreateAction \<lparr>description = ''Import from the Mountaintops'', inputBEEF = Some [1],
       inputs = Some three_inputs, outputs = None\<rparr>,
     UnlockerSign [1, 2, 3] 0, UnlockerSign [1, 2, 3] 1]"

definition sign_ok :: "nat \<Rightarrow> js_error + string" where
  "sign_ok i = Inr ''483045''"

definition no_utxos :: json where
  "no_utxos = UnspentJSON []"

definition import_prefix :: "createActionInput list \<Rightarrow> nat list event list" where
  "import_prefix ins = [GetNetwork,
     HttpGet ''https://api.whatsonchain.com/v1/bsv/main/address/1Bridge/unspent'',
     CreateAction \<lparr>description = ''Import from the Mountaintops'', inputBEEF = Some [1],
       inputs = Some ins, outputs = None\<rparr>]"

definition signed_three_trace :: "nat list event list" where
  "signed_three_trace = import_prefix three_inputs @
     [UnlockerSign [1, 2, 3] 0, UnlockerSign [1, 2, 3] 1, UnlockerSign [1, 2, 3] 2,
      SignAction \<lparr>sa_reference = ''R'',
        spends = [(0, ''483045''), (1, ''483045''), (2, ''483045'')]\<rparr>]"

definition paid :: createActionResult where
  "paid = \<lparr>txid = Some ''4a5e1e'', signable = None\<rparr>"

definition shout_state :: "string \<Rightarrow> string \<Rightarrow> ui_state" where
  "shout_state to amt = \<lparr>mountaintopsAddress = None, balance = Fin (- 1),
     recipientAddress = to, amount = amt, transactions = []\<rparr>"

definition payment :: createActionArgs where
  "payment = \<lparr>description = ''Shout BSV at an address'', inputBEEF = None, inputs = None,
     outputs = Some [\<lparr>lockingScript = ''76a9141A1zP1eP5QGefi2DMPTfTL5SLmv7DivfNa88ac'',
       satoshis = Fin 1000000, outputDescription = ''BSV for recipient address''\<rparr>]\<rparr>"

definition rounded_payment :: createActionArgs where
  "rounded_payment = \<lparr>description = ''Shout BSV at an address'', inputBEEF = None,
     inputs = None,
     outputs = Some [\<lparr>lockingScript = ''76a9141A1zP1eP5QGefi2DMPTfTL5SLmv7DivfNa88ac'',
       satoshis = Fin 7000000, outputDescription = ''BSV for recipient address''\<rparr>]\<rparr>"

definition viewed_state :: ui_state where
  "viewed_state = \<lparr>mountaintopsAddress = Some ''1Bridge'', balance = Fin (- 1),
     recipientAddress = [], amount = [], transactions = []\<rparr>"

definition balance_request :: "nat list event list" where
  "balance_request = [GetNetwork,
     HttpGet ''https://api.whatsonchain.com/v1/bsv/main/address/1Bridge/balance'']"

section \<open>Traces of the phases\<close>

lemma io_simps: 
  "perform ev answer h = (answer h, h @ [ev])"
  "bindE m f h = (case m h of (Inl e, h') \<Rightarrow> (Inl e, h') | (Inr a, h') \<Rightarrow> f a h')"
  "pure_call r h = (r, h)"
  "alert msg h = (Inr (), h @ [Alert msg])"
  "getRealWalletNetwork env h = (getNetwork env h, h @ [GetNetwork])"
  by (simp_all add: perform_def bindE_def pure_call_def alert_def getRealWalletNetwork_def)

lemma abort_refs_append [simp]: "abort_refs (xs @ ys) = abort_refs xs @ abort_refs ys"
  by (induction xs rule: abort_refs.induct) simp_all

lemma sign_indices_append [simp]: "sign_indices (xs @ ys) = sign_indices xs @ sign_indices ys"
  by (induction xs rule: sign_indices.induct) simp_all

lemma alerts_append [simp]: "alerts (xs @ ys) = alerts xs @ alerts ys"
  by (induction xs rule: alerts.induct) simp_all

lemma external_calls_append [simp]:
  "external_calls (xs @ ys) = external_calls xs @ external_calls ys"
  by (induction xs rule: external_calls.induct) simp_all

lemma created_append [simp]: "created (xs @ ys) = created xs @ created ys"
  by (induction xs rule: created.induct) simp_all

lemma signed_append [simp]: "signed (xs @ ys) = signed xs @ signed ys"
  by (induction xs rule: signed.induct) simp_all

lemma sign_indices_map [simp]: "sign_indices (map (UnlockerSign t) is) = is"
  by (induction "is") simp_all

lemma abort_refs_map_sign [simp]: "abort_refs (map (UnlockerSign t) is) = []"
  by (induction "is") simp_all

lemma alerts_map_sign [simp]: "alerts (map (UnlockerSign t) is) = []"
  by (induction "is") simp_all

lemma created_map_sign [simp]: "created (map (UnlockerSign t) is) = []"
  by (induction "is") simp_all

lemma signed_map_sign [simp]: "signed (map (UnlockerSign t) is) = []"
  by (induction "is") simp_all

lemma update_fresh: "k \<notin> fst ` set al \<Longrightarrow> AList.update k v al = al @ [(k, v)]"
  by (induction al) auto

text \<open>The request phase: what it leaves in the trace, by the place where it stops.\<close>

lemma import_request_cases:
  assumes "import_request v env a h = (r, h1)"
  shows "(\<exists>e. r = Inl e \<and> h1 = h @ [GetNetwork])
       \<or> (\<exists>e n. r = Inl e \<and> h1 = h @ [GetNetwork, HttpGet (unspent_url n a)])
       \<or> (\<exists>n xs. getNetwork env h = Inr n
             \<and> fetch_json env (h @ [GetNetwork]) (unspent_url n a) = Inr (UnspentJSON xs)
             \<and> h1 = h @ [GetNetwork, HttpGet (unspent_url n a),
                          CreateAction (import_args v env (map mk_input xs))]
             \<and> (case r of Inl e \<Rightarrow> True
                 | Inr (ins, s) \<Rightarrow> ins = map mk_input xs
                     \<and> (\<exists>res. createAction env (h @ [GetNetwork, HttpGet (unspent_url n a)])
                                 (import_args v env ins) = Inr res \<and> signable res = Some s)))"
  using assms
  by (auto simp: import_request_def io_simps split: sum.splits option.splits json.splits
      elim!: map_inputs.elims)

lemma sign_loop_events:
  assumes "sign_loop env t n i sp h = (r, h')" and "i \<le> n" and "map fst sp = [0..<i]"
  shows "\<exists>k. i \<le> k \<and> k \<le> n \<and> h' = h @ map (UnlockerSign t) [i..<k]
            \<and> (case r of Inl e \<Rightarrow> i < k
                | Inr sp' \<Rightarrow> k = n \<and> map fst sp' = [0..<n])"
  using assms
proof (induction env t n i sp h rule: sign_loop.induct)
  case (1 env t n i sp h)
  show ?case
  proof (cases "i < n")
    case False
    with "1.prems" have "r = Inr sp" "h' = h" "i = n"
      by (simp_all add: sign_loop.simps)
    with "1.prems"(3) show ?thesis
      by (intro exI [of _ n]) simp
  next
    case True
    show ?thesis
    proof (cases "unlocker_sign env h t i")
      case (Inl e)
      with True "1.prems" have "r = Inl e" "h' = h @ [UnlockerSign t i]"
        by (simp_all add: sign_loop.simps io_simps)
      with True show ?thesis
        by (intro exI [of _ "Suc i"]) (simp add: upt_rec)
    next
      case (Inr script)
      have fresh: "i \<notin> fst ` set sp"
        using "1.prems"(3) by (metis atLeastLessThan_iff less_irrefl list.set_map set_upt)
      have keys: "map fst (AList.update i script sp) = [0..<Suc i]"
        using "1.prems"(3) by (simp add: update_fresh [OF fresh])
      from True Inr "1.prems"(1)
      have run: "sign_loop env t n (Suc i) (AList.update i script sp) (h @ [UnlockerSign t i]) = (r, h')"
        by (simp add: sign_loop.simps [of env t n i] io_simps)
      from "1.IH" [OF True _ _ run _ keys] True Inr
      obtain k where k: "Suc i \<le> k" "k \<le> n"
        "h' = (h @ [UnlockerSign t i]) @ map (UnlockerSign t) [Suc i..<k]"
        "case r of Inl e \<Rightarrow> Suc i < k | Inr sp' \<Rightarrow> k = n \<and> map fst sp' = [0..<n]"
        by (auto simp: io_simps)
      show ?thesis
        using k by (intro exI [of _ k]) (auto simp: upt_conv_Cons split: sum.splits)
    qed
  qed
qed


lemma import_sign_cases:
  assumes "import_sign env ins s h1 = (r, h2)"
  shows "(\<exists>e. r = Inl e \<and> fromAtomicBEEF env (tx s) = Inl e \<and> h2 = h1)
       \<or> (\<exists>t k e. fromAtomicBEEF env (tx s) = Inr t \<and> 0 < k \<and> k \<le> length ins
             \<and> r = Inl e \<and> h2 = h1 @ map (UnlockerSign t) [0..<k])
       \<or> (\<exists>t sp. fromAtomicBEEF env (tx s) = Inr t \<and> map fst sp = [0..<length ins]
             \<and> h2 = h1 @ map (UnlockerSign t) [0..<length ins]
                       @ [SignAction \<lparr>sa_reference = reference s, spends = sp\<rparr>]
             \<and> r = signAction env (h1 @ map (UnlockerSign t) [0..<length ins])
                      \<lparr>sa_reference = reference s, spends = sp\<rparr>)"
proof (cases "fromAtomicBEEF env (tx s)")
  case (Inl e)
  with assms show ?thesis
    by (simp add: import_sign_def io_simps)
next
  case (Inr t)
  obtain r' h' where loop: "sign_loop env t (length ins) 0 [] h1 = (r', h')"
    by (cases "sign_loop env t (length ins) 0 [] h1")
  from sign_loop_events [OF loop] obtain k where k: "k \<le> length ins"
    "h' = h1 @ map (UnlockerSign t) [0..<k]"
    "case r' of Inl e \<Rightarrow> 0 < k | Inr sp' \<Rightarrow> k = length ins \<and> map fst sp' = [0..<length ins]"
    by auto
  show ?thesis
  proof (cases r')
    case (Inl e)
    with assms Inr loop k show ?thesis
      by (auto simp: import_sign_def io_simps)
  next
    case (Inr sp)
    with assms \<open>fromAtomicBEEF env (tx s) = Inr t\<close> loop k show ?thesis
      by (auto simp: import_sign_def io_simps)
  qed
qed

text \<open>What the try block leaves in the trace.\<close>

lemma import_try_events:
  assumes "import_try v env a h = (r, ref, h1)"
  shows "\<exists>evs. h1 = h @ evs \<and> abort_refs evs = [] \<and> alerts evs = []
           \<and> external_calls evs \<noteq> []"
proof (cases "import_request v env a h")
  case (Pair rq hq)
  from import_request_cases [OF Pair]
  obtain evq where evq: "hq = h @ evq" "abort_refs evq = []" "alerts evq = []"
    "external_calls evq \<noteq> []"
    by (elim disjE exE conjE) simp_all
  show ?thesis
  proof (cases rq)
    case (Inl e)
    with assms Pair evq show ?thesis
      by (auto simp: import_try_def)
  next
    case (Inr p)
    obtain ins s where p: "p = (ins, s)" by (cases p)
    obtain rs hs where sg: "import_sign env ins s hq = (rs, hs)"
      by (cases "import_sign env ins s hq")
    from import_sign_cases [OF sg]
    obtain evs where evs: "hs = hq @ evs" "abort_refs evs = []" "alerts evs = []"
      by (elim disjE exE conjE) simp_all
    from assms Pair Inr p sg have "h1 = hs"
      by (simp add: import_try_def)
    with evq evs show ?thesis
      by (intro exI [of _ "evq @ evs"]) simp
  qed
qed

text \<open>
  The whole try block, by the place where it stops: before \<^verbatim>\<open>createAction\<close> is called, or
  after it, with the signatures made so far and, when all are made, the submission.
\<close>

lemma import_try_shape:
  assumes "import_try v env a h = (r, ref, h1)"
  shows "(\<exists>evs. h1 = h @ evs \<and> created evs = [] \<and> sign_indices evs = [] \<and> signed evs = []
            \<and> ref = None \<and> isl r)
       \<or> (\<exists>n xs t k post.
             h1 = h @ [GetNetwork, HttpGet (unspent_url n a),
                       CreateAction (import_args v env (map mk_input xs))]
                    @ map (UnlockerSign t) [0..<k] @ post
           \<and> getNetwork env h = Inr n
           \<and> fetch_json env (h @ [GetNetwork]) (unspent_url n a) = Inr (UnspentJSON xs)
           \<and> k \<le> length xs
           \<and> (post = [] \<and> isl r
              \<or> (\<exists>(s::signableTransaction) sp. post = [SignAction \<lparr>sa_reference = reference s, spends = sp\<rparr>]
                    \<and> ref = Some (reference s) \<and> k = length xs
                    \<and> map fst sp = [0..<length xs])))"
proof (cases "import_request v env a h")
  case (Pair rq hq)
  note rq = import_request_cases [OF Pair]
  show ?thesis
  proof (cases rq)
    case (Inl e)
    with assms Pair have res: "r = Inl e" "ref = None" "h1 = hq"
      by (simp_all add: import_try_def)
    from rq Inl consider
      (early) evs where "hq = h @ evs" "created evs = []" "sign_indices evs = []" "signed evs = []"
    | (asked) n xs where "getNetwork env h = Inr n"
        "fetch_json env (h @ [GetNetwork]) (unspent_url n a) = Inr (UnspentJSON xs)"
        "hq = h @ [GetNetwork, HttpGet (unspent_url n a),
                   CreateAction (import_args v env (map mk_input xs))]"
      by (elim disjE exE conjE) simp_all
    then show ?thesis
    proof cases
      case early
      with res show ?thesis by auto
    next
      case asked
      with res show ?thesis
        by (intro disjI2 exI [of _ n] exI [of _ xs] exI [of _ undefined] exI [of _ 0]
            exI [of _ "[]"]) simp
    qed
  next
    case (Inr p)
    obtain ins s where p: "p = (ins, s)" by (cases p)
    from rq Inr p obtain n xs where ok: "getNetwork env h = Inr n"
        "fetch_json env (h @ [GetNetwork]) (unspent_url n a) = Inr (UnspentJSON xs)"
        "hq = h @ [GetNetwork, HttpGet (unspent_url n a),
                   CreateAction (import_args v env (map mk_input xs))]"
        "ins = map mk_input xs"
      by (elim disjE exE conjE) simp_all
    obtain rs hs where sg: "import_sign env ins s hq = (rs, hs)"
      by (cases "import_sign env ins s hq")
    from assms Pair Inr p sg have res: "r = rs" "ref = Some (reference s)" "h1 = hs"
      by (simp_all add: import_try_def)
    from import_sign_cases [OF sg] show ?thesis
    proof (elim disjE exE conjE)
      fix e
      assume "rs = Inl e" "hs = hq"
      with res ok show ?thesis
        by (intro disjI2 exI [of _ n] exI [of _ xs] exI [of _ undefined] exI [of _ 0]
            exI [of _ "[]"]) simp
    next
      fix t k e
      assume "0 < k" "k \<le> length ins" "rs = Inl e" "hs = hq @ map (UnlockerSign t) [0..<k]"
      with res ok show ?thesis
        by (intro disjI2 exI [of _ n] exI [of _ xs] exI [of _ t] exI [of _ k]
            exI [of _ "[]"]) simp
    next
      fix t sp
      assume "map fst sp = [0..<length ins]"
        "hs = hq @ map (UnlockerSign t) [0..<length ins]
               @ [SignAction \<lparr>sa_reference = reference s, spends = sp\<rparr>]"
      with res ok show ?thesis
        by (intro disjI2 exI [of _ n] exI [of _ xs] exI [of _ t] exI [of _ "length xs"]
            exI [of _ "[SignAction \<lparr>sa_reference = reference s, spends = sp\<rparr>]"]) auto
    qed
  qed
qed

text \<open>
  After the try block the handler only aborts and alerts.
\<close>

lemma handleImportFunds_tail:
  assumes "handleImportFunds v env st h = (r, st', h')"
    and "truthy (mountaintopsAddress st)"
    and "\<not> js_lt (balance st) (Fin 0)" and "\<not> js_eq (balance st) (Fin 0)"
    and "import_try v env (the (mountaintopsAddress st)) h = (rt, ref, h1)"
  shows "\<exists>tail. h' = h1 @ tail \<and> created tail = [] \<and> sign_indices tail = [] \<and> signed tail = []"
  using assms
  by (auto simp: handleImportFunds_def import_catch_def import_done_def io_simps
      split: sum.splits variant.splits if_splits)

lemma handleImportFunds_refused:
  assumes "handleImportFunds v env st h = (r, st', h')"
    and "\<not> (truthy (mountaintopsAddress st)
      \<and> \<not> js_lt (balance st) (Fin 0) \<and> \<not> js_eq (balance st) (Fin 0))"
  shows "\<exists>m. h' = h @ [Alert m]"
  using assms by (auto simp: handleImportFunds_def io_simps split: if_splits)

lemma handleImportFunds_shape:
  assumes "handleImportFunds v env st h = (r, st', h')"
  shows "(\<exists>evs. h' = h @ evs \<and> created evs = [] \<and> sign_indices evs = [] \<and> signed evs = [])
       \<or> (\<exists>n xs t k post.
             h' = h @ [GetNetwork, HttpGet (unspent_url n (the (mountaintopsAddress st))),
                       CreateAction (import_args v env (map mk_input xs))]
                    @ map (UnlockerSign t) [0..<k] @ post
           \<and> fetch_json env (h @ [GetNetwork]) (unspent_url n (the (mountaintopsAddress st)))
               = Inr (UnspentJSON xs)
           \<and> k \<le> length xs \<and> created post = [] \<and> sign_indices post = []
           \<and> (signed post = []
              \<or> (\<exists>sa. signed post = [sa] \<and> k = length xs
                    \<and> map fst (spends sa) = [0..<length xs])))"
proof (cases "truthy (mountaintopsAddress st)
      \<and> \<not> js_lt (balance st) (Fin 0) \<and> \<not> js_eq (balance st) (Fin 0)")
  case False
  from handleImportFunds_refused [OF assms False] show ?thesis
    by auto
next
  case True
  obtain rt ref h1 where t: "import_try v env (the (mountaintopsAddress st)) h = (rt, ref, h1)"
    by (cases "import_try v env (the (mountaintopsAddress st)) h")
  from handleImportFunds_tail [OF assms _ _ _ t] True
  obtain tail where tail: "h' = h1 @ tail" "created tail = []" "sign_indices tail = []"
    "signed tail = []"
    by auto
  from import_try_shape [OF t] show ?thesis
  proof (elim disjE)
    assume "\<exists>evs. h1 = h @ evs \<and> created evs = [] \<and> sign_indices evs = [] \<and> signed evs = []
            \<and> ref = None \<and> isl rt"
    then obtain evs where "h1 = h @ evs" "created evs = []" "sign_indices evs = []"
      "signed evs = []"
      by blast
    with tail show ?thesis
      by (intro disjI1 exI [of _ "evs @ tail"]) simp
  next
    assume "\<exists>n xs t k post.
             h1 = h @ [GetNetwork, HttpGet (unspent_url n (the (mountaintopsAddress st))),
                       CreateAction (import_args v env (map mk_input xs))]
                    @ map (UnlockerSign t) [0..<k] @ post
           \<and> getNetwork env h = Inr n
           \<and> fetch_json env (h @ [GetNetwork]) (unspent_url n (the (mountaintopsAddress st)))
               = Inr (UnspentJSON xs)
           \<and> k \<le> length xs
           \<and> (post = [] \<and> isl rt
              \<or> (\<exists>(s::signableTransaction) sp. post = [SignAction \<lparr>sa_reference = reference s, spends = sp\<rparr>]
                    \<and> ref = Some (reference s) \<and> k = length xs
                    \<and> map fst sp = [0..<length xs]))"
    then obtain n xs t k post where asked:
      "h1 = h @ [GetNetwork, HttpGet (unspent_url n (the (mountaintopsAddress st))),
                 CreateAction (import_args v env (map mk_input xs))]
              @ map (UnlockerSign t) [0..<k] @ post"
      "fetch_json env (h @ [GetNetwork]) (unspent_url n (the (mountaintopsAddress st)))
         = Inr (UnspentJSON xs)"
      "k \<le> length xs"
      "post = [] \<or> (\<exists>(s::signableTransaction) sp. post = [SignAction \<lparr>sa_reference = reference s, spends = sp\<rparr>]
          \<and> k = length xs \<and> map fst sp = [0..<length xs])"
      by blast
    from asked(4) have "created post = [] \<and> sign_indices post = []
        \<and> (signed post = [] \<or> (\<exists>sa. signed post = [sa] \<and> k = length xs
              \<and> map fst (spends sa) = [0..<length xs]))"
      by auto
    with asked(1-3) tail show ?thesis
      by (intro disjI2 exI [of _ n] exI [of _ xs] exI [of _ t] exI [of _ k]
          exI [of _ "post @ tail"]) simp
  qed
qed

lemma sign_loop_none: "sign_loop env t 0 0 [] h = (Inr [], h)"
  by (simp add: sign_loop.simps)

text \<open>
  The catch block by cases: the abort, when there is a reference, comes first; the
  message and the alert follow only if the abort returned and the thrown value has
  properties to read.
\<close>

lemma import_catch_cases:
  "import_catch env ref e h =
     (if truthy ref
      then (case abortAction env h (the ref) of
              Inl e' \<Rightarrow> (Inl e', h @ [AbortAction (the ref)])
            | Inr u \<Rightarrow>
                (case import_failed e of
                   Inl t \<Rightarrow> (Inl t, h @ [AbortAction (the ref)])
                 | Inr m \<Rightarrow> (Inr (), h @ [AbortAction (the ref), Alert m])))
      else (case import_failed e of
              Inl t \<Rightarrow> (Inl t, h)
            | Inr m \<Rightarrow> (Inr (), h @ [Alert m])))"
  by (simp add: import_catch_def io_simps split: sum.splits)

lemma import_catch_thrown_null:
  "import_catch env None ThrownNull h =
     (Inl (Thrown (Some ''Cannot read properties of null (reading 'message')'')), h)"
  by (simp add: import_catch_cases)

text \<open>
  A loop in which no call to the signer throws signs every index and keeps every script.
\<close>

lemma sign_loop_complete:
  assumes "i \<le> n" and "map fst sp = [0..<i]"
    and "\<forall>j. i \<le> j \<and> j < n \<longrightarrow>
           \<not> isl (unlocker_sign env (h @ map (UnlockerSign t) [i..<j]) t j)"
  shows "sign_loop env t n i sp h =
    (Inr (sp @ map (\<lambda>j. (j, projr (unlocker_sign env (h @ map (UnlockerSign t) [i..<j]) t j)))
                 [i..<n]),
     h @ map (UnlockerSign t) [i..<n])"
  using assms
proof (induction "n - i" arbitrary: i sp h)
  case 0
  then have "i = n" by simp
  then show ?case
    by (simp add: sign_loop.simps)
next
  case (Suc d)
  then have lt: "i < n" by simp
  from Suc.prems(3) lt have "\<not> isl (unlocker_sign env (h @ map (UnlockerSign t) [i..<i]) t i)"
    by blast
  then obtain script where script: "unlocker_sign env h t i = Inr script"
    by (cases "unlocker_sign env h t i") simp_all
  have fresh: "i \<notin> fst ` set sp"
    using Suc.prems(2) by (metis atLeastLessThan_iff less_irrefl list.set_map set_upt)
  have keys: "map fst (sp @ [(i, script)]) = [0..<Suc i]"
    using Suc.prems(2) by simp
  have hist: "(h @ [UnlockerSign t i]) @ map (UnlockerSign t) [Suc i..<j]
      = h @ map (UnlockerSign t) [i..<j]" if "i < j" for j
    using that by (simp add: upt_conv_Cons)
  have hist': "h @ UnlockerSign t i # map (UnlockerSign t) [Suc i..<j]
      = h @ map (UnlockerSign t) [i..<j]" if "i < j" for j
    using hist [OF that] by simp
  have later: "\<forall>j. Suc i \<le> j \<and> j < n \<longrightarrow>
      \<not> isl (unlocker_sign env ((h @ [UnlockerSign t i]) @ map (UnlockerSign t) [Suc i..<j]) t j)"
    using Suc.prems(3) hist by (metis Suc_le_lessD Suc_leD)
  have d: "d = n - Suc i"
    using Suc.hyps(2) by simp
  have step: "sign_loop env t n i sp h
      = sign_loop env t n (Suc i) (sp @ [(i, script)]) (h @ [UnlockerSign t i])"
    using lt script by (simp add: sign_loop.simps [of env t n i] io_simps update_fresh [OF fresh])
  have rest: "map (\<lambda>j. (j, projr (unlocker_sign env
                 ((h @ [UnlockerSign t i]) @ map (UnlockerSign t) [Suc i..<j]) t j))) [Suc i..<n]
      = map (\<lambda>j. (j, projr (unlocker_sign env (h @ map (UnlockerSign t) [i..<j]) t j))) [Suc i..<n]"
    by (rule map_cong [OF refl]) (simp add: hist')
  have "sign_loop env t n i sp h =
    (Inr ((sp @ [(i, script)]) @ map (\<lambda>j. (j, projr (unlocker_sign env
                 ((h @ [UnlockerSign t i]) @ map (UnlockerSign t) [Suc i..<j]) t j))) [Suc i..<n]),
     (h @ [UnlockerSign t i]) @ map (UnlockerSign t) [Suc i..<n])"
    unfolding step using Suc.hyps(1) [OF d _ keys later] lt by simp
  then show ?case
    unfolding rest using lt script by (simp add: upt_conv_Cons)
qed

text \<open>
  What a run that asked the wallet for an action had fetched and declared.
\<close>

lemma handleImportFunds_declared:
  assumes "handleImportFunds v env st h = (r, st', h')"
    and "c \<in> set (created (drop (length h) h'))"
    and "getNetwork env h = Inr n"
  shows "truthy (mountaintopsAddress st) \<and> \<not> js_lt (balance st) (Fin 0)
       \<and> \<not> js_eq (balance st) (Fin 0)
       \<and> (\<exists>xs. fetch_json env (h @ [GetNetwork]) (unspent_url n (the (mountaintopsAddress st)))
                  = Inr (UnspentJSON xs)
               \<and> c = import_args v env (map mk_input xs))"
proof -
  have go: "truthy (mountaintopsAddress st) \<and> \<not> js_lt (balance st) (Fin 0)
       \<and> \<not> js_eq (balance st) (Fin 0)"
  proof (rule ccontr)
    assume "\<not> ?thesis"
    from handleImportFunds_refused [OF assms(1) this] assms(2) show False
      by auto
  qed
  obtain rt ref h1 where t: "import_try v env (the (mountaintopsAddress st)) h = (rt, ref, h1)"
    by (cases "import_try v env (the (mountaintopsAddress st)) h")
  from handleImportFunds_tail [OF assms(1) _ _ _ t] go
  obtain tail where tail: "h' = h1 @ tail" "created tail = []"
    by auto
  from import_try_shape [OF t] tail assms(2,3)
  have "\<exists>xs. fetch_json env (h @ [GetNetwork]) (unspent_url n (the (mountaintopsAddress st)))
                  = Inr (UnspentJSON xs)
               \<and> c = import_args v env (map mk_input xs)"
    by (elim disjE exE conjE) auto
  with go show ?thesis by simp
qed

text \<open>
  The run in which the wallet answers and no call to the signer throws.
\<close>

lemma handleImportFunds_signs_all:
  assumes "handleImportFunds v env st h = (r, st', h')"
    and "truthy (mountaintopsAddress st)"
    and "\<not> js_lt (balance st) (Fin 0)" and "\<not> js_eq (balance st) (Fin 0)"
    and "getNetwork env h = Inr n"
    and "fetch_json env (h @ [GetNetwork]) (unspent_url n (the (mountaintopsAddress st)))
           = Inr (UnspentJSON xs)"
    and "createAction env (h @ [GetNetwork, HttpGet (unspent_url n (the (mountaintopsAddress st)))])
           (import_args v env (map mk_input xs)) = Inr res"
    and "signable res = Some s" and "fromAtomicBEEF env (tx s) = Inr t"
    and "\<forall>i < length xs. \<not> isl (unlocker_sign env
           (h @ [GetNetwork, HttpGet (unspent_url n (the (mountaintopsAddress st))),
                 CreateAction (import_args v env (map mk_input xs))]
              @ map (UnlockerSign t) [0..<i]) t i)"
  shows "\<exists>tail. h' = h @ [GetNetwork, HttpGet (unspent_url n (the (mountaintopsAddress st))),
                 CreateAction (import_args v env (map mk_input xs))]
              @ map (UnlockerSign t) [0..<length xs]
              @ [SignAction \<lparr>sa_reference = reference s,
                   spends = map (\<lambda>i. (i, projr (unlocker_sign env
                     (h @ [GetNetwork, HttpGet (unspent_url n (the (mountaintopsAddress st))),
                           CreateAction (import_args v env (map mk_input xs))]
                        @ map (UnlockerSign t) [0..<i]) t i))) [0..<length xs]\<rparr>]
              @ tail
          \<and> created tail = [] \<and> sign_indices tail = [] \<and> signed tail = []"
proof -
  let ?h3 = "h @ [GetNetwork, HttpGet (unspent_url n (the (mountaintopsAddress st))),
                 CreateAction (import_args v env (map mk_input xs))]"
  let ?sp = "map (\<lambda>i. (i, projr (unlocker_sign env (?h3 @ map (UnlockerSign t) [0..<i]) t i)))
               [0..<length xs]"
  let ?sa = "\<lparr>sa_reference = reference s, spends = ?sp\<rparr>"
  have rq: "import_request v env (the (mountaintopsAddress st)) h = (Inr (map mk_input xs, s), ?h3)"
    using assms(5-8) by (simp add: import_request_def io_simps)
  have loop: "sign_loop env t (length xs) 0 [] ?h3
      = (Inr ?sp, ?h3 @ map (UnlockerSign t) [0..<length xs])"
    using sign_loop_complete [of 0 "length xs" "[]" env ?h3 t] assms(10) by simp
  have sg: "import_sign env (map mk_input xs) s ?h3
      = (signAction env (?h3 @ map (UnlockerSign t) [0..<length xs]) ?sa,
         ?h3 @ map (UnlockerSign t) [0..<length xs] @ [SignAction ?sa])"
    using assms(9) loop by (simp add: import_sign_def io_simps)
  have t: "import_try v env (the (mountaintopsAddress st)) h
      = (signAction env (?h3 @ map (UnlockerSign t) [0..<length xs]) ?sa, Some (reference s),
         ?h3 @ map (UnlockerSign t) [0..<length xs] @ [SignAction ?sa])"
    using rq sg by (simp add: import_try_def)
  from handleImportFunds_tail [OF assms(1-4) t]
  obtain tail where "h' = (?h3 @ map (UnlockerSign t) [0..<length xs] @ [SignAction ?sa]) @ tail"
    "created tail = []" "sign_indices tail = []" "signed tail = []"
    by blast
  then show ?thesis
    by (intro exI [of _ tail]) simp
qed

section \<open>Rounding is exact on safe integers\<close>

lemma bitlen_bounds:
  "0 < n \<Longrightarrow> 1 \<le> bitlen n \<and> 2 ^ nat (bitlen n - 1) \<le> n \<and> n < 2 ^ nat (bitlen n)"
proof (induction n rule: bitlen.induct)
  case (1 n)
  show ?case
  proof (cases "n div 2 = 0")
    case True
    with "1.prems" have "n = 1" by presburger
    then show ?thesis
      by (simp add: bitlen.simps [of 1] bitlen.simps [of 0])
  next
    case False
    with "1.prems" have pos: "0 < n div 2" by presburger
    from "1.IH" [OF _ pos] "1.prems"
    have ih: "1 \<le> bitlen (n div 2)" "2 ^ nat (bitlen (n div 2) - 1) \<le> n div 2"
      "n div 2 < 2 ^ nat (bitlen (n div 2))"
      by auto
    have b: "bitlen n = 1 + bitlen (n div 2)"
      using "1.prems" by (simp add: bitlen.simps [of n])
    from ih(1) have e1: "nat (bitlen n - 1) = Suc (nat (bitlen (n div 2) - 1))"
      and e2: "nat (bitlen n) = Suc (nat (bitlen (n div 2)))"
      unfolding b by simp_all
    have "2 * (n div 2) \<le> n" "n \<le> 2 * (n div 2) + 1" by presburger+
    with ih b show ?thesis
      unfolding e1 e2 by simp
  qed
qed

lemma bitlen_le: "0 < n \<Longrightarrow> n < 2 ^ m \<Longrightarrow> bitlen n \<le> int m"
proof -
  assume n: "0 < n" "n < 2 ^ m"
  from bitlen_bounds [OF n(1)] n(2) have "(2::int) ^ nat (bitlen n - 1) < 2 ^ m"
    by linarith
  then have "nat (bitlen n - 1) < m"
    by simp
  then show ?thesis by linarith
qed

lemma round_half_even_int: "round_half_even (of_int z) = z"
  by (simp add: round_half_even_def)

lemma ilog2_of_int: "0 < n \<Longrightarrow> ilog2 (of_int n) = bitlen n - 1"
proof -
  assume n: "0 < n"
  from bitlen_bounds [OF n] have b: "1 \<le> bitlen n" "2 ^ nat (bitlen n - 1) \<le> n"
    by auto
  have "bitlen 1 = 1"
    by (simp add: bitlen.simps [of 1] bitlen.simps [of 0])
  moreover have "(2::rat) ^ nat (bitlen n - 1) \<le> of_int n"
    using b(2) by (metis of_int_le_iff of_int_numeral of_int_power)
  ultimately show ?thesis
    using b(1) by (simp add: ilog2_def pow2_def)
qed

lemma fl_of_nat_range:
  assumes "0 < m" and "m < 2 ^ 53"
  shows "fl (of_int m) = Fin (of_int m)" and "fl (- of_int m) = Fin (- of_int m)"
proof -
  define e where "e = bitlen m - 1"
  from bitlen_bounds [OF assms(1)] bitlen_le [OF assms] have e: "0 \<le> e" "e \<le> 52"
    by (simp_all add: e_def)
  define j where "j = nat (52 - e)"
  from e have p: "max (e - 52) (- 1074) = e - 52" by simp
  have pw: "pow2 (e - 52) = 1 / 2 ^ j"
    using e by (auto simp: pow2_def j_def)
  have "(of_int m :: rat) / pow2 (e - 52) = of_int (m * 2 ^ j)"
    by (simp add: pw)
  then have r: "round_half_even (of_int m / pow2 (e - 52)) = m * 2 ^ j"
    by (simp only: round_half_even_int)
  have unscale: "(of_int (m * 2 ^ j) :: rat) * pow2 (e - 52) = of_int m"
    by (simp add: pw)
  have il: "ilog2 (of_int m) = e"
    by (simp add: ilog2_of_int [OF assms(1)] e_def)
  have mag: "\<bar>of_int m :: rat\<bar> = of_int m" "\<bar>- of_int m :: rat\<bar> = of_int m"
    using assms(1) by simp_all
  have nz: "(of_int m :: rat) \<noteq> 0" "(of_int m :: rat) > 0"
    using assms(1) by simp_all
  from e have fits: "\<not> (971 < e - 52 \<or> e - 52 = 971 \<and> m * 2 ^ j = 9007199254740992)"
    by simp
  show "fl (of_int m) = Fin (of_int m)"
    unfolding fl_def Let_def mag il p r unscale using nz fits by simp
  show "fl (- of_int m) = Fin (- of_int m)"
    unfolding fl_def Let_def mag il p r unscale using nz fits by simp
qed

lemma js_of_int_safe: "\<bar>n\<bar> < 2 ^ 53 \<Longrightarrow> js_of_int n = Fin (of_int n)"
proof -
  assume n: "\<bar>n\<bar> < 2 ^ 53"
  consider "n = 0" | "0 < n" | "n < 0" by linarith
  then show ?thesis
  proof cases
    case 1
    then show ?thesis by (simp add: js_of_int_def fl_def)
  next
    case 2
    with n fl_of_nat_range(1) [of n] show ?thesis
      by (simp add: js_of_int_def)
  next
    case 3
    with n fl_of_nat_range(2) [of "- n"] show ?thesis
      by (simp add: js_of_int_def)
  qed
qed

section \<open>Rounding to an integer, and the guards of the import\<close>

text \<open>
  \<^verbatim>\<open>Math.round\<close> gives the integer within one half of its argument, a tie going up.
\<close>

lemma Math_round_nearest:
  "Math_round (Fin p) = Fin (of_int \<lfloor>p + 1 / 2\<rfloor>)
   \<and> of_int \<lfloor>p + 1 / 2\<rfloor> - 1 / 2 \<le> p \<and> p < of_int \<lfloor>p + 1 / 2\<rfloor> + 1 / 2"
proof (intro conjI)
  show "Math_round (Fin p) = Fin (of_int \<lfloor>p + 1 / 2\<rfloor>)"
    by simp
  show "of_int \<lfloor>p + 1 / 2\<rfloor> - 1 / 2 \<le> p"
    by linarith
  show "p < of_int \<lfloor>p + 1 / 2\<rfloor> + 1 / 2"
    by linarith
qed

text \<open>
  The import flow makes a call to the wallet, the explorer or the signer exactly when
  the address is set and not empty and both comparisons of the source, \<^verbatim>\<open>balance < 0\<close>
  and \<^verbatim>\<open>balance === 0\<close>, are false; otherwise it alerts and leaves the state as it was.
\<close>

lemma handleImportFunds_guards:
  "(mountaintopsAddress st = None \<or> balance st = Fin (- 1) \<or> balance st = Fin 0 \<longrightarrow>
      (\<exists>m \<in> {''Get your address and balance first!'', ''No money to import!''}.
         handleImportFunds v env st h = (Inr (), st, h @ [Alert m])))
   \<and> (external_calls (drop (length h) (snd (snd (handleImportFunds v env st h)))) \<noteq> []
        \<longleftrightarrow> (\<exists>a. mountaintopsAddress st = Some a \<and> a \<noteq> [])
            \<and> \<not> js_lt (balance st) (Fin 0) \<and> \<not> js_eq (balance st) (Fin 0))
   \<and> (external_calls (drop (length h) (snd (snd (handleImportFunds v env st h)))) = [] \<longrightarrow>
      (\<exists>m \<in> {''Get your address and balance first!'', ''No money to import!''}.
         handleImportFunds v env st h = (Inr (), st, h @ [Alert m])))"
proof -
  let ?run = "handleImportFunds v env st h"
  let ?new = "drop (length h) (snd (snd ?run))"
  let ?go = "(\<exists>a. mountaintopsAddress st = Some a \<and> a \<noteq> [])
          \<and> \<not> js_lt (balance st) (Fin 0) \<and> \<not> js_eq (balance st) (Fin 0)"
  let ?refused = "\<exists>m \<in> {''Get your address and balance first!'', ''No money to import!''}.
         ?run = (Inr (), st, h @ [Alert m])"
  have stop: "?refused" if "\<not> ?go"
  proof -
    from that have "\<not> truthy (mountaintopsAddress st) \<or> js_lt (balance st) (Fin 0)
        \<or> js_eq (balance st) (Fin 0)"
      by (cases "mountaintopsAddress st") auto
    then show ?thesis
      by (auto simp: handleImportFunds_def io_simps)
  qed
  have quiet: "external_calls ?new = []" if "?refused"
    using that by auto
  have go: "external_calls ?new \<noteq> []" if "?go"
  proof -
    from that have g: "truthy (mountaintopsAddress st)" "\<not> js_lt (balance st) (Fin 0)"
      "\<not> js_eq (balance st) (Fin 0)"
      by auto
    obtain rt ref h1 where t: "import_try v env (the (mountaintopsAddress st)) h = (rt, ref, h1)"
      by (cases "import_try v env (the (mountaintopsAddress st)) h")
    from import_try_events [OF t] obtain evs where evs: "h1 = h @ evs" "external_calls evs \<noteq> []"
      by auto
    have "\<exists>more. snd (snd ?run) = h1 @ more"
      using g t
      by (auto simp: handleImportFunds_def import_catch_def import_done_def io_simps
          split: sum.splits variant.splits)
    then obtain more where "snd (snd ?run) = h @ evs @ more"
      using evs by auto
    then show ?thesis
      using evs by simp
  qed
  have "\<not> ?go" if "mountaintopsAddress st = None \<or> balance st = Fin (- 1) \<or> balance st = Fin 0"
    using that by (auto simp: js_lt_def js_eq_def)
  with stop go quiet show ?thesis
    by blast
qed

section \<open>The claims\<close>

text \<open>
  C1. The claim requires that a failure after the reference is obtained be reported,
  also when the abort fails in its turn. The handler loses it then: on a run with three
  inputs whose second signature throws, with a wallet whose \<^verbatim>\<open>abortAction\<close> throws as
  well, it calls \<^verbatim>\<open>abortAction\<close> once with the reference \<open>R\<close> and its promise rejects with
  the abort's error, the signing error never being alerted. On the same run with an
  abort that returns, the signing error is alerted after the one abort.
\<close>

theorem abort_failure_loses_original_failure:
  "handleImportFunds V1
     (fixture_env Mainnet three_utxos pending_R sign_fails_on_second
        (Inl (Thrown (Some ''abort failed''))))
     funded_state []
   = (Inl (Thrown (Some ''abort failed'')), funded_state,
      failed_signing_trace @ [AbortAction ''R''])
   \<and> abort_refs (failed_signing_trace @ [AbortAction ''R'']) = [''R'']
   \<and> alerts (failed_signing_trace @ [AbortAction ''R'']) = []
   \<and> handleImportFunds V1
     (fixture_env Mainnet three_utxos pending_R sign_fails_on_second (Inr ()))
     funded_state []
   = (Inr (), funded_state,
      failed_signing_trace @ [AbortAction ''R'', Alert ''Import failed: sign failed''])"
  by code_simp

text \<open>
  The run passes the guards of the handler, so the abort and the lost report are those
  of the import itself.
\<close>

theorem abort_failure_loses_original_failure_witness:
  "truthy (mountaintopsAddress funded_state)
   \<and> \<not> js_lt (balance funded_state) (Fin 0) \<and> \<not> js_eq (balance funded_state) (Fin 0)
   \<and> fst (handleImportFunds V1
        (fixture_env Mainnet three_utxos pending_R sign_fails_on_second
           (Inl (Thrown (Some ''abort failed''))))
        funded_state [])
     = Inl (Thrown (Some ''abort failed''))
   \<and> snd (snd (handleImportFunds V1
        (fixture_env Mainnet three_utxos pending_R sign_fails_on_second
           (Inl (Thrown (Some ''abort failed''))))
        funded_state []))
     = failed_signing_trace @ [AbortAction ''R'']
   \<and> alerts (failed_signing_trace @ [AbortAction ''R'']) = []"
proof -
  have g1: "truthy (mountaintopsAddress funded_state)" by code_simp
  have g2: "\<not> js_lt (balance funded_state) (Fin 0)" by code_simp
  have g3: "\<not> js_eq (balance funded_state) (Fin 0)" by code_simp
  note run = abort_failure_loses_original_failure [THEN conjunct1]
  note quiet = abort_failure_loses_original_failure [THEN conjunct2, THEN conjunct2,
      THEN conjunct1]
  show ?thesis
    by (intro conjI g1 g2 g3 quiet) (simp_all only: run fst_conv snd_conv)
qed

text \<open>
  C2 (as amended). For every address and network, when the wallet names the network and
  the explorer answers with integer fields \<open>confirmed\<close> and \<open>unconfirmed\<close>,
  \<^verbatim>\<open>fetchBSVBalance\<close> asks the wallet for the network, issues one HTTP GET to the balance
  endpoint of that network (\<open>main\<close> or \<open>test\<close>) and returns the sum of the two fields
  divided by 100000000: an amount in BSV, not in satoshis.
\<close>

theorem balance_in_bsv:
  assumes "getNetwork env h = Inr n"
    and "fetch_json env (h @ [GetNetwork]) (balance_url n a)
           = Inr (BalanceJSON (js_of_int c) (js_of_int u))"
  shows "fetchBSVBalance env a h =
      (Inr (js_div (js_add (js_of_int c) (js_of_int u)) (Fin 100000000)),
       h @ [GetNetwork,
            HttpGet (''https://api.whatsonchain.com/v1/bsv/''
                     @ (case n of Mainnet \<Rightarrow> ''main'' | Testnet \<Rightarrow> ''test'')
                     @ ''/address/'' @ a @ ''/balance'')])"
  using assms
  by (cases n) (simp_all add: fetchBSVBalance_def balance_url_def io_simps)

text \<open>
  On testnet, 200000000 confirmed and 100000000 unconfirmed satoshis are returned as 3.
\<close>

theorem balance_in_bsv_witness:
  "getNetwork (fixture_env Testnet (BalanceJSON (js_of_int 200000000) (js_of_int 100000000)) paid
       sign_ok (Inr ())) ([] :: nat list event list) = Inr Testnet
   \<and> fetchBSVBalance (fixture_env Testnet (BalanceJSON (js_of_int 200000000) (js_of_int 100000000))
        paid sign_ok (Inr ())) ''mBridge'' []
     = (Inr (Fin 3),
        [GetNetwork, HttpGet ''https://api.whatsonchain.com/v1/bsv/test/address/mBridge/balance''])"
proof -
  let ?env = "fixture_env Testnet (BalanceJSON (js_of_int 200000000) (js_of_int 100000000)) paid
       sign_ok (Inr ())"
  let ?h = "[] :: nat list event list"
  have net: "getNetwork ?env ?h = Inr Testnet"
    by code_simp
  have fetched: "fetch_json ?env (?h @ [GetNetwork]) (balance_url Testnet ''mBridge'')
      = Inr (BalanceJSON (js_of_int 200000000) (js_of_int 100000000))"
    by code_simp
  have rhs: "(Inr (js_div (js_add (js_of_int 200000000) (js_of_int 100000000)) (Fin 100000000))
         :: js_error + jsnum,
       ?h @ [GetNetwork,
            HttpGet (''https://api.whatsonchain.com/v1/bsv/''
                     @ (case Testnet of Mainnet \<Rightarrow> ''main'' | Testnet \<Rightarrow> ''test'')
                     @ ''/address/'' @ ''mBridge'' @ ''/balance'')])
     = (Inr (Fin 3),
        [GetNetwork, HttpGet ''https://api.whatsonchain.com/v1/bsv/test/address/mBridge/balance''])"
    by code_simp
  show ?thesis
    by (rule conjI [OF net trans [OF balance_in_bsv [OF net fetched] rhs]])
qed

text \<open>
  C2 as stated fails: with 50000000 confirmed and 25000000 unconfirmed satoshis the sum
  is 75000000 and the function returns 0.75.
\<close>

theorem balance_is_not_the_satoshi_sum_counterexample:
  "fst (fetchBSVBalance
          (fixture_env Mainnet (BalanceJSON (js_of_int 50000000) (js_of_int 25000000)) paid sign_ok
             (Inr ()))
          ''1Bridge'' [])
     = Inr (Fin (3 / 4))
   \<and> js_add (js_of_int 50000000) (js_of_int 25000000) = Fin 75000000"
  by code_simp

text \<open>
  C3. For every payload with integer fields \<open>confirmed\<close> and \<open>unconfirmed\<close>,
  \<^verbatim>\<open>fetchBSVBalance\<close> returns the value of \<^verbatim>\<open>(confirmed + unconfirmed) / 100000000\<close>; when
  the fields and their sum are safe integers (below \<open>2^53\<close> in magnitude, as every amount of
  satoshis is) nothing is lost before the division and the value is the quotient of the
  exact sum, as binary64 holds it.
\<close>

theorem balance_value:
  assumes "getNetwork env h = Inr n"
    and "fetch_json env (h @ [GetNetwork]) (balance_url n a)
           = Inr (BalanceJSON (js_of_int c) (js_of_int u))"
  shows "fst (fetchBSVBalance env a h)
           = Inr (js_div (js_add (js_of_int c) (js_of_int u)) (Fin 100000000))
       \<and> (\<bar>c\<bar> < 2 ^ 53 \<and> \<bar>u\<bar> < 2 ^ 53 \<and> \<bar>c + u\<bar> < 2 ^ 53 \<longrightarrow>
            fst (fetchBSVBalance env a h) = Inr (fl (of_int (c + u) / 100000000)))"
proof -
  have val: "fst (fetchBSVBalance env a h)
           = Inr (js_div (js_add (js_of_int c) (js_of_int u)) (Fin 100000000))"
    using assms by (simp add: fetchBSVBalance_def io_simps)
  have "js_div (js_add (js_of_int c) (js_of_int u)) (Fin 100000000)
          = fl (of_int (c + u) / 100000000)"
    if "\<bar>c\<bar> < 2 ^ 53" "\<bar>u\<bar> < 2 ^ 53" "\<bar>c + u\<bar> < 2 ^ 53"
  proof -
    have c: "js_of_int c = Fin (of_int c)"
      by (rule js_of_int_safe [OF that(1)])
    have u: "js_of_int u = Fin (of_int u)"
      by (rule js_of_int_safe [OF that(2)])
    have s: "js_of_int (c + u) = Fin (of_int (c + u))"
      by (rule js_of_int_safe [OF that(3)])
    have "js_add (js_of_int c) (js_of_int u) = fl (of_int c + of_int u)"
      unfolding c u by simp
    also have "\<dots> = js_of_int (c + u)"
      by (simp add: js_of_int_def)
    finally have "js_add (js_of_int c) (js_of_int u) = Fin (of_int (c + u))"
      unfolding s .
    then show ?thesis by simp
  qed
  with val show ?thesis by simp
qed

text \<open>
  The payload of the specification: 150000000 confirmed, 0 unconfirmed, gives 1.5.
\<close>

theorem balance_value_witness:
  "\<bar>150000000 :: int\<bar> < 2 ^ 53 \<and> \<bar>0 :: int\<bar> < 2 ^ 53 \<and> \<bar>150000000 + 0 :: int\<bar> < 2 ^ 53
   \<and> fst (fetchBSVBalance
          (fixture_env Mainnet (BalanceJSON (js_of_int 150000000) (js_of_int 0)) paid sign_ok (Inr ()))
          ''1Bridge'' [])
     = Inr (Fin (3 / 2))"
proof -
  let ?env = "fixture_env Mainnet (BalanceJSON (js_of_int 150000000) (js_of_int 0)) paid sign_ok
      (Inr ())"
  let ?h = "[] :: nat list event list"
  have net: "getNetwork ?env ?h = Inr Mainnet"
    by code_simp
  have fetched: "fetch_json ?env (?h @ [GetNetwork]) (balance_url Mainnet ''1Bridge'')
      = Inr (BalanceJSON (js_of_int 150000000) (js_of_int 0))"
    by code_simp
  have safe: "\<bar>150000000 :: int\<bar> < 2 ^ 53 \<and> \<bar>0 :: int\<bar> < 2 ^ 53 \<and> \<bar>150000000 + 0 :: int\<bar> < 2 ^ 53"
    by simp
  have rounded: "Inr (fl (of_int (150000000 + 0) / 100000000)) = (Inr (Fin (3 / 2)) :: js_error + jsnum)"
    by code_simp
  note inst = balance_value [OF net fetched, THEN conjunct2, rule_format, OF safe]
  show ?thesis
    by (intro conjI safe [THEN conjunct1] safe [THEN conjunct2, THEN conjunct1]
        safe [THEN conjunct2, THEN conjunct2] trans [OF inst rounded])
qed

text \<open>
  C4. For every recipient address and amount, when the wallet answers that the network
  is mainnet: if the address does not begin with \<open>1\<close>, \<^verbatim>\<open>sendBSV\<close> tells the user so in an
  alert and resolves with \<^verbatim>\<open>undefined\<close>, and no action is created or signed: the query
  that gave the network is the only event before the alert. If the address begins with
  \<open>1\<close>, the send is attempted: the locking script is built and, unless that throws,
  \<^verbatim>\<open>createAction\<close> is called with the single output, its transaction id (or its
  failure) being the result.
\<close>

theorem send_mainnet_prefix:
  assumes "getNetwork env h = Inr Mainnet"
  shows "(\<not> startsWith to ''1'' \<longrightarrow>
            sendBSV v env to amt h = (Inr None, h @ [GetNetwork, Alert (mainnet_alert v)])
          \<and> created (drop (length h) (snd (sendBSV v env to amt h))) = []
          \<and> signed (drop (length h) (snd (sendBSV v env to amt h))) = [])
       \<and> (startsWith to ''1'' \<longrightarrow>
            sendBSV v env to amt h =
              (case p2pkh_lock env to of
                 Inl e \<Rightarrow> (Inl e, h @ [GetNetwork])
               | Inr script \<Rightarrow>
                   (map_sum id txid (createAction env (h @ [GetNetwork]) (send_args script amt)),
                    h @ [GetNetwork, CreateAction (send_args script amt)])))"
  using assms by (auto simp: sendBSV_def io_simps split: sum.splits)

text \<open>
  The two addresses of the specification, on mainnet.
\<close>

theorem send_mainnet_prefix_witness:
  "getNetwork (fixture_env Mainnet no_utxos paid sign_ok (Inr ())) ([] :: nat list event list)
     = Inr Mainnet
   \<and> \<not> startsWith ''mipcBbFg9gMiCh81Kj8tqqdgoZub1ZJRfn'' ''1''
   \<and> sendBSV V1 (fixture_env Mainnet no_utxos paid sign_ok (Inr ()))
        ''mipcBbFg9gMiCh81Kj8tqqdgoZub1ZJRfn'' (fl (1 / 100)) []
     = (Inr None,
        [GetNetwork,
         Alert ''You are on mainnet but the recipient address does not start with 1!''])
   \<and> created (drop (length ([] :: nat list event list))
        (snd (sendBSV V1 (fixture_env Mainnet no_utxos paid sign_ok (Inr ()))
           ''mipcBbFg9gMiCh81Kj8tqqdgoZub1ZJRfn'' (fl (1 / 100)) []))) = []
   \<and> startsWith ''1A1zP1eP5QGefi2DMPTfTL5SLmv7DivfNa'' ''1''
   \<and> sendBSV V1 (fixture_env Mainnet no_utxos paid sign_ok (Inr ()))
        ''1A1zP1eP5QGefi2DMPTfTL5SLmv7DivfNa'' (fl (1 / 100)) []
     = (Inr (Some ''4a5e1e''), [GetNetwork, CreateAction payment])"
proof -
  let ?env = "fixture_env Mainnet no_utxos paid sign_ok (Inr ())"
  let ?h = "[] :: nat list event list"
  let ?bad = "''mipcBbFg9gMiCh81Kj8tqqdgoZub1ZJRfn''"
  let ?good = "''1A1zP1eP5QGefi2DMPTfTL5SLmv7DivfNa''"
  have net: "getNetwork ?env ?h = Inr Mainnet"
    by code_simp
  have mismatch: "\<not> startsWith ?bad ''1''"
    by code_simp
  have match: "startsWith ?good ''1''"
    by code_simp
  have refused: "(Inr None :: js_error + string option, ?h @ [GetNetwork, Alert (mainnet_alert V1)])
      = (Inr None,
         [GetNetwork,
          Alert ''You are on mainnet but the recipient address does not start with 1!''])"
    by code_simp
  have sent: "(case p2pkh_lock ?env ?good of
         Inl e \<Rightarrow> (Inl e, ?h @ [GetNetwork])
       | Inr script \<Rightarrow>
           (map_sum id txid (createAction ?env (?h @ [GetNetwork]) (send_args script (fl (1 / 100)))),
            ?h @ [GetNetwork, CreateAction (send_args script (fl (1 / 100)))]))
      = (Inr (Some ''4a5e1e''), [GetNetwork, CreateAction payment])"
    by code_simp
  note bad = send_mainnet_prefix [OF net, where to = ?bad and v = V1 and amt = "fl (1 / 100)",
      THEN conjunct1, rule_format, OF mismatch]
  note good = send_mainnet_prefix [OF net, where to = ?good and v = V1 and amt = "fl (1 / 100)",
      THEN conjunct2, rule_format, OF match]
  show ?thesis
    by (intro conjI net mismatch match trans [OF bad [THEN conjunct1] refused]
        bad [THEN conjunct2, THEN conjunct1] trans [OF good sent])
qed

text \<open>
  C5. In every run of the import flow that declares the inputs \<open>ins\<close> in its
  \<^verbatim>\<open>createAction\<close> request, the calls to the signer are consecutive events on one
  transaction object and their indices are \<open>0, 1, \<dots>, k - 1\<close> for some \<open>k\<close> up to the
  number of inputs: ascending, one after the other, none twice. If the run submits
  signatures, it submits once, every index below the number of inputs has been signed
  exactly once, and the keys of the submitted \<open>spends\<close> are exactly these indices.
  And it does submit whenever nothing throws on the way: if the wallet returns a signable
  transaction that parses and no call to the signer throws, then the signer is called
  for every index \<open>0, \<dots>, n - 1\<close> and the one \<^verbatim>\<open>signAction\<close> request carries the
  reference and, under each index, the script the signer returned for it.
\<close>

theorem signing_once_per_input:
  assumes "handleImportFunds v env st h = (r, st', h')"
    and "c \<in> set (created (drop (length h) h'))" and "inputs c = Some ins"
  shows "(\<exists>k \<le> length ins. sign_indices (drop (length h) h') = [0..<k])
       \<and> (\<exists>t pre post. drop (length h) h'
              = pre @ map (UnlockerSign t) (sign_indices (drop (length h) h')) @ post
            \<and> sign_indices pre = [] \<and> sign_indices post = [])
       \<and> (\<forall>sa \<in> set (signed (drop (length h) h')).
             signed (drop (length h) h') = [sa]
           \<and> sign_indices (drop (length h) h') = [0..<length ins]
           \<and> map fst (spends sa) = [0..<length ins])
       \<and> (\<forall>n res s t.
             getNetwork env h = Inr n
           \<and> createAction env
                (h @ [GetNetwork, HttpGet (unspent_url n (the (mountaintopsAddress st)))]) c
               = Inr res
           \<and> signable res = Some s \<and> fromAtomicBEEF env (tx s) = Inr t
           \<and> (\<forall>i < length ins. \<not> isl (unlocker_sign env
                 (h @ [GetNetwork, HttpGet (unspent_url n (the (mountaintopsAddress st))),
                       CreateAction c] @ map (UnlockerSign t) [0..<i]) t i))
           \<longrightarrow> sign_indices (drop (length h) h') = [0..<length ins]
             \<and> signed (drop (length h) h')
                 = [\<lparr>sa_reference = reference s,
                     spends = map (\<lambda>i. (i, projr (unlocker_sign env
                       (h @ [GetNetwork, HttpGet (unspent_url n (the (mountaintopsAddress st))),
                             CreateAction c] @ map (UnlockerSign t) [0..<i]) t i)))
                       [0..<length ins]\<rparr>])"
proof -
  let ?new = "drop (length h) h'"
  from handleImportFunds_shape [OF assms(1)] assms(2)
  obtain n xs t k post where run:
    "h' = h @ [GetNetwork, HttpGet (unspent_url n (the (mountaintopsAddress st))),
               CreateAction (import_args v env (map mk_input xs))]
            @ map (UnlockerSign t) [0..<k] @ post"
    "k \<le> length xs" "created post = []" "sign_indices post = []"
    "signed post = [] \<or> (\<exists>sa. signed post = [sa] \<and> k = length xs
        \<and> map fst (spends sa) = [0..<length xs])"
    by auto
  from run(1) have new: "?new = [GetNetwork, HttpGet (unspent_url n (the (mountaintopsAddress st))),
               CreateAction (import_args v env (map mk_input xs))]
            @ map (UnlockerSign t) [0..<k] @ post"
    by simp
  from new run(3) assms(2) have "c = import_args v env (map mk_input xs)"
    by simp
  with assms(3) have ins: "length ins = length xs"
    by (auto simp: import_args_def)
  from new run(4) have idx: "sign_indices ?new = [0..<k]"
    by simp
  have contiguous: "\<exists>t pre post. ?new = pre @ map (UnlockerSign t) (sign_indices ?new) @ post
            \<and> sign_indices pre = [] \<and> sign_indices post = []"
    unfolding idx using new run(4)
    by (intro exI [of _ t] exI [of _ post]
        exI [of _ "[GetNetwork, HttpGet (unspent_url n (the (mountaintopsAddress st))),
               CreateAction (import_args v env (map mk_input xs))]"]) simp
  from new run(5) have submitted: "\<forall>sa \<in> set (signed ?new).
             signed ?new = [sa] \<and> k = length xs \<and> map fst (spends sa) = [0..<length xs]"
    by auto
  have complete: "sign_indices ?new = [0..<length ins]
      \<and> signed ?new
          = [\<lparr>sa_reference = reference s,
              spends = map (\<lambda>i. (i, projr (unlocker_sign env
                (h @ [GetNetwork, HttpGet (unspent_url m (the (mountaintopsAddress st))),
                      CreateAction c] @ map (UnlockerSign u) [0..<i]) u i)))
                [0..<length ins]\<rparr>]"
    if net: "getNetwork env h = Inr m"
      and wallet: "createAction env
          (h @ [GetNetwork, HttpGet (unspent_url m (the (mountaintopsAddress st)))]) c = Inr res"
        "signable res = Some s" "fromAtomicBEEF env (tx s) = Inr u"
      and signer: "\<forall>i < length ins. \<not> isl (unlocker_sign env
          (h @ [GetNetwork, HttpGet (unspent_url m (the (mountaintopsAddress st))),
                CreateAction c] @ map (UnlockerSign u) [0..<i]) u i)"
    for m res s u
  proof -
    from handleImportFunds_declared [OF assms(1,2) net]
    obtain ys where go: "truthy (mountaintopsAddress st)" "\<not> js_lt (balance st) (Fin 0)"
      "\<not> js_eq (balance st) (Fin 0)"
      and ys: "fetch_json env (h @ [GetNetwork]) (unspent_url m (the (mountaintopsAddress st)))
                  = Inr (UnspentJSON ys)" "c = import_args v env (map mk_input ys)"
      by blast
    from ys(2) assms(3) have len: "length ins = length ys"
      by (auto simp: import_args_def)
    from handleImportFunds_signs_all [OF assms(1) go net ys(1) wallet(1) [unfolded ys(2)]
        wallet(2,3) signer [unfolded ys(2) len]]
    obtain tail where "h' = h @ [GetNetwork, HttpGet (unspent_url m (the (mountaintopsAddress st))),
                 CreateAction (import_args v env (map mk_input ys))]
              @ map (UnlockerSign u) [0..<length ys]
              @ [SignAction \<lparr>sa_reference = reference s,
                   spends = map (\<lambda>i. (i, projr (unlocker_sign env
                     (h @ [GetNetwork, HttpGet (unspent_url m (the (mountaintopsAddress st))),
                           CreateAction (import_args v env (map mk_input ys))]
                        @ map (UnlockerSign u) [0..<i]) u i))) [0..<length ys]\<rparr>]
              @ tail"
      "created tail = []" "sign_indices tail = []" "signed tail = []"
      by blast
    then show ?thesis
      unfolding ys(2) len by simp
  qed
  from idx ins run(2) have "\<exists>k \<le> length ins. sign_indices ?new = [0..<k]"
    by auto
  moreover from submitted idx ins have "\<forall>sa \<in> set (signed ?new).
             signed ?new = [sa] \<and> sign_indices ?new = [0..<length ins]
           \<and> map fst (spends sa) = [0..<length ins]"
    by auto
  ultimately show ?thesis
    using contiguous complete by blast
qed

text \<open>
  A run with three inputs: indices 0, 1, 2 are signed and submitted.
\<close>

theorem signing_once_per_input_witness:
  "handleImportFunds V1 (fixture_env Mainnet three_utxos pending_R sign_ok (Inr ())) funded_state []
     = (Inr (), funded_state\<lparr>balance := Fin 0\<rparr>, signed_three_trace)
   \<and> created (drop (length ([] :: nat list event list)) signed_three_trace)
       = [\<lparr>description = ''Import from the Mountaintops'', inputBEEF = Some [1],
           inputs = Some three_inputs, outputs = None\<rparr>]
   \<and> length three_inputs = 3
   \<and> sign_indices (drop (length ([] :: nat list event list)) signed_three_trace) = [0, 1, 2]
   \<and> (\<exists>k\<le>length three_inputs.
         sign_indices (drop (length ([] :: nat list event list)) signed_three_trace) = [0..<k])
   \<and> signed (drop (length ([] :: nat list event list)) signed_three_trace)
       = [\<lparr>sa_reference = ''R'',
           spends = [(0, ''483045''), (1, ''483045''), (2, ''483045'')]\<rparr>]
   \<and> sign_indices (drop (length ([] :: nat list event list)) signed_three_trace)
       = [0..<length three_inputs]
   \<and> map fst (spends \<lparr>sa_reference = ''R'',
           spends = [(0, ''483045''), (1, ''483045''), (2, ''483045'')]\<rparr>)
       = [0..<length three_inputs]"
proof -
  let ?env = "fixture_env Mainnet three_utxos pending_R sign_ok (Inr ())"
  let ?c = "\<lparr>description = ''Import from the Mountaintops'', inputBEEF = Some [1],
           inputs = Some three_inputs, outputs = None\<rparr>"
  let ?sa = "\<lparr>sa_reference = ''R'',
           spends = [(0, ''483045''), (1, ''483045''), (2, ''483045'')]\<rparr>"
  let ?s = "\<lparr>tx = [1, 2, 3], reference = ''R''\<rparr>"
  let ?h = "[] :: nat list event list"
  let ?url = "unspent_url Mainnet (the (mountaintopsAddress funded_state))"
  let ?new = "drop (length ?h) signed_three_trace"
  have run: "handleImportFunds V1 ?env funded_state [] 
      = (Inr (), funded_state\<lparr>balance := Fin 0\<rparr>, signed_three_trace)"
    by code_simp
  have cr: "created ?new = [?c]"
    by code_simp
  have mem: "?c \<in> set (created ?new)"
    unfolding cr by simp
  have ins: "inputs ?c = Some three_inputs"
    by simp
  have seen1: "length three_inputs = 3"
    by code_simp
  have seen2: "sign_indices ?new = [0, 1, 2]"
    by code_simp
  have never_throws: "\<forall>i < length three_inputs. \<not> isl (unlocker_sign ?env
      (?h @ [GetNetwork, HttpGet ?url, CreateAction ?c] @ map (UnlockerSign [1, 2, 3]) [0..<i])
      [1, 2, 3] i)"
    by (simp add: fixture_env_def sign_ok_def)
  have wallet: "getNetwork ?env ?h = Inr Mainnet
      \<and> createAction ?env (?h @ [GetNetwork, HttpGet ?url]) ?c = Inr pending_R
      \<and> signable pending_R = Some ?s \<and> fromAtomicBEEF ?env (tx ?s) = Inr [1, 2, 3]"
    by code_simp
  have scripts: "[\<lparr>sa_reference = reference ?s,
        spends = map (\<lambda>i. (i, projr (unlocker_sign ?env
          (?h @ [GetNetwork, HttpGet ?url, CreateAction ?c]
             @ map (UnlockerSign [1, 2, 3]) [0..<i]) [1, 2, 3] i)))
          [0..<length three_inputs]\<rparr>] = [?sa]"
    by code_simp
  note inst = signing_once_per_input [OF run mem ins]
  note complete = inst [THEN conjunct2, THEN conjunct2, THEN conjunct2, rule_format,
      where n = Mainnet and res = pending_R and s = ?s and t = "[1, 2, 3]",
      OF conjI [OF wallet [THEN conjunct1] conjI [OF wallet [THEN conjunct2, THEN conjunct1]
        conjI [OF wallet [THEN conjunct2, THEN conjunct2, THEN conjunct1]
          conjI [OF wallet [THEN conjunct2, THEN conjunct2, THEN conjunct2] never_throws]]]]]
  have sg: "signed ?new = [?sa]"
    by (rule trans [OF complete [THEN conjunct2] scripts])
  have submitted: "?sa \<in> set (signed ?new)"
    unfolding sg by simp
  note full = inst [THEN conjunct2, THEN conjunct2, THEN conjunct1, THEN bspec, OF submitted]
  show ?thesis
    by (intro conjI run cr seen1 seen2 inst [THEN conjunct1] sg complete [THEN conjunct1]
        full [THEN conjunct2, THEN conjunct2])
qed

text \<open>
  C6. When the explorer returns no unspent output, the import flow still calls
  \<^verbatim>\<open>createAction\<close> with the empty input list, and whatever follows contains no call to
  the signer and no second request; if the wallet returns a signable transaction that
  parses and accepts the empty \<open>spends\<close>, the handler resolves with the balance set to 0
  (and, in the second version, the alert of success).
\<close>

theorem import_with_no_utxos:
  assumes "truthy (mountaintopsAddress st)"
    and "\<not> js_lt (balance st) (Fin 0)" and "\<not> js_eq (balance st) (Fin 0)"
    and "getNetwork env h = Inr n"
    and "fetch_json env (h @ [GetNetwork]) (unspent_url n (the (mountaintopsAddress st)))
           = Inr (UnspentJSON [])"
  shows "(\<exists>post. snd (snd (handleImportFunds v env st h))
            = h @ [GetNetwork, HttpGet (unspent_url n (the (mountaintopsAddress st))),
                   CreateAction (import_args v env [])] @ post
          \<and> inputs (import_args v env []) = Some []
          \<and> sign_indices post = [] \<and> created post = [])
       \<and> (\<forall>res s t.
            createAction env (h @ [GetNetwork, HttpGet (unspent_url n (the (mountaintopsAddress st)))])
                (import_args v env []) = Inr res
            \<and> signable res = Some s \<and> fromAtomicBEEF env (tx s) = Inr t
            \<and> signAction env
                (h @ [GetNetwork, HttpGet (unspent_url n (the (mountaintopsAddress st))),
                      CreateAction (import_args v env [])])
                \<lparr>sa_reference = reference s, spends = []\<rparr> = Inr ()
            \<longrightarrow> handleImportFunds v env st h
                = (Inr (), st\<lparr>balance := Fin 0\<rparr>,
                   h @ [GetNetwork, HttpGet (unspent_url n (the (mountaintopsAddress st))),
                        CreateAction (import_args v env []),
                        SignAction \<lparr>sa_reference = reference s, spends = []\<rparr>]
                     @ (case v of V1 \<Rightarrow> []
                        | V2 \<Rightarrow> [Alert ''Funds successfully imported to your real wallet!''])))"
  using assms
  by (auto simp: handleImportFunds_def import_try_def import_request_def import_sign_def
      import_catch_def import_done_def io_simps sign_loop_none import_args_def
      split: sum.splits option.splits variant.splits)

text \<open>
  The second version of the handler on an address without unspent outputs.
\<close>

theorem import_with_no_utxos_witness:
  "truthy (mountaintopsAddress funded_state)
   \<and> \<not> js_lt (balance funded_state) (Fin 0) \<and> \<not> js_eq (balance funded_state) (Fin 0)
   \<and> handleImportFunds V2 (fixture_env Mainnet no_utxos pending_R sign_ok (Inr ())) funded_state []
     = (Inr (), funded_state\<lparr>balance := Fin 0\<rparr>,
        [GetNetwork, HttpGet ''https://api.whatsonchain.com/v1/bsv/main/address/1Bridge/unspent'',
         CreateAction \<lparr>description = ''Import from the Mountaintops'', inputBEEF = Some [],
           inputs = Some [], outputs = None\<rparr>,
         SignAction \<lparr>sa_reference = ''R'', spends = []\<rparr>,
         Alert ''Funds successfully imported to your real wallet!''])"
proof -
  let ?env = "fixture_env Mainnet no_utxos pending_R sign_ok (Inr ())"
  let ?url = "unspent_url Mainnet (the (mountaintopsAddress funded_state))"
  let ?h = "[] :: nat list event list"
  let ?s = "\<lparr>tx = [1, 2, 3], reference = ''R''\<rparr>"
  have g1: "truthy (mountaintopsAddress funded_state)" by code_simp
  have g2: "\<not> js_lt (balance funded_state) (Fin 0)" by code_simp
  have g3: "\<not> js_eq (balance funded_state) (Fin 0)" by code_simp
  have net: "getNetwork ?env ?h = Inr Mainnet"
    by code_simp
  have fetched: "fetch_json ?env (?h @ [GetNetwork]) ?url = Inr (UnspentJSON [])"
    by code_simp
  have wallet: "createAction ?env (?h @ [GetNetwork, HttpGet ?url]) (import_args V2 ?env [])
        = Inr pending_R
      \<and> signable pending_R = Some ?s
      \<and> fromAtomicBEEF ?env (tx ?s) = Inr [1, 2, 3]
      \<and> signAction ?env (?h @ [GetNetwork, HttpGet ?url, CreateAction (import_args V2 ?env [])])
          \<lparr>sa_reference = reference ?s, spends = []\<rparr> = Inr ()"
    by code_simp
  have shape: "?h @ [GetNetwork, HttpGet ?url, CreateAction (import_args V2 ?env []),
        SignAction \<lparr>sa_reference = reference ?s, spends = []\<rparr>]
        @ (case V2 of V1 \<Rightarrow> [] | V2 \<Rightarrow> [Alert ''Funds successfully imported to your real wallet!''])
      = [GetNetwork, HttpGet ''https://api.whatsonchain.com/v1/bsv/main/address/1Bridge/unspent'',
         CreateAction \<lparr>description = ''Import from the Mountaintops'', inputBEEF = Some [],
           inputs = Some [], outputs = None\<rparr>,
         SignAction \<lparr>sa_reference = ''R'', spends = []\<rparr>,
         Alert ''Funds successfully imported to your real wallet!'']"
    by code_simp
  note inst = import_with_no_utxos [OF g1 g2 g3 net fetched, of V2]
  have finished: "handleImportFunds V2 ?env funded_state []
      = (Inr (), funded_state\<lparr>balance := Fin 0\<rparr>,
         ?h @ [GetNetwork, HttpGet ?url, CreateAction (import_args V2 ?env []),
        SignAction \<lparr>sa_reference = reference ?s, spends = []\<rparr>]
        @ (case V2 of V1 \<Rightarrow> [] | V2 \<Rightarrow> [Alert ''Funds successfully imported to your real wallet!'']))"
    by (rule inst [THEN conjunct2, rule_format, OF wallet])
  show ?thesis
    unfolding finished shape by (intro conjI g1 g2 g3 refl)
qed

text \<open>
  C7. Two calls of \<^verbatim>\<open>getMountaintopsAddress\<close>, at any two points of a session, to which
  the wallet answers with the same network and the same public key return the same
  address, the SDK's address of that key on that network; each call queries the wallet
  again, for the network and for the key of protocol \<open>[1, mountaintops]\<close>, key id \<open>1\<close>:
  nothing is cached.
\<close>

theorem address_deterministic:
  assumes "getNetwork env h = Inr n" and "getNetwork env h' = Inr n"
    and "getPublicKey env (h @ [GetNetwork]) mountaintops_key = Inr k"
    and "getPublicKey env (h' @ [GetNetwork]) mountaintops_key = Inr k"
  shows "fst (getMountaintopsAddress env h) = fst (getMountaintopsAddress env h')
       \<and> fst (getMountaintopsAddress env h) = toAddress env k n
       \<and> snd (getMountaintopsAddress env h) = h @ [GetNetwork, GetPublicKey mountaintops_key]
       \<and> snd (getMountaintopsAddress env h') = h' @ [GetNetwork, GetPublicKey mountaintops_key]"
  using assms by (simp add: getMountaintopsAddress_def io_simps)

text \<open>
  Two calls in a row against the fixture wallet.
\<close>

theorem address_deterministic_witness:
  "fst (getMountaintopsAddress (fixture_env Mainnet no_utxos paid sign_ok (Inr ())) [])
     = Inr ''102ab''
   \<and> fst (getMountaintopsAddress (fixture_env Mainnet no_utxos paid sign_ok (Inr ()))
          [GetNetwork, GetPublicKey mountaintops_key])
     = Inr ''102ab''
   \<and> snd (getMountaintopsAddress (fixture_env Mainnet no_utxos paid sign_ok (Inr ()))
          [GetNetwork, GetPublicKey mountaintops_key])
     = [GetNetwork, GetPublicKey mountaintops_key] @ [GetNetwork, GetPublicKey mountaintops_key]"
proof -
  let ?env = "fixture_env Mainnet no_utxos paid sign_ok (Inr ())"
  let ?h = "[] :: nat list event list"
  let ?h' = "[GetNetwork, GetPublicKey mountaintops_key] :: nat list event list"
  have n1: "getNetwork ?env ?h = Inr Mainnet" by code_simp
  have n2: "getNetwork ?env ?h' = Inr Mainnet" by code_simp
  have k1: "getPublicKey ?env (?h @ [GetNetwork]) mountaintops_key = Inr ''02ab''" by code_simp
  have k2: "getPublicKey ?env (?h' @ [GetNetwork]) mountaintops_key = Inr ''02ab''" by code_simp
  have addr: "toAddress ?env ''02ab'' Mainnet = Inr ''102ab''" by code_simp
  note inst = address_deterministic [OF n1 n2 k1 k2]
  have first: "fst (getMountaintopsAddress ?env ?h) = Inr ''102ab''"
    by (rule trans [OF inst [THEN conjunct2, THEN conjunct1] addr])
  have second: "fst (getMountaintopsAddress ?env ?h') = Inr ''102ab''"
    by (rule trans [OF inst [THEN conjunct1, symmetric] first])
  show ?thesis
    by (intro conjI first second inst [THEN conjunct2, THEN conjunct2, THEN conjunct2])
qed

text \<open>
  C8. With both fields filled in, \<^verbatim>\<open>handleShoutBSV\<close> rejects an amount that is not a
  number or is not positive with an alert and no other event, so before any wallet call.
  A valid amount is passed to \<^verbatim>\<open>sendBSV\<close>, which, when the network check passes and the
  locking script is built, makes exactly two calls: the network query and one
  \<^verbatim>\<open>createAction\<close> whose single output carries
  \<^verbatim>\<open>Math.round(amount * 100000000)\<close> satoshis; it returns the transaction id of the
  wallet's answer, which the handler records. The satoshis are rounded: when the product
  is finite they are the integer \<open>z\<close> with \<open>z - 1/2 \<le> amount * 100000000 < z + 1/2\<close>, and
  an infinite product stays infinite.
\<close>

theorem shout_amount_and_output:
  assumes "recipientAddress st \<noteq> []" and "amount st \<noteq> []"
  shows "(isNaN (toNumber env (amount st)) \<or> js_le (toNumber env (amount st)) (Fin 0) \<longrightarrow>
            handleShoutBSV v env st h
              = (Inr (), st, h @ [Alert ''Please enter a valid amount > 0.'']))
       \<and> (\<not> isNaN (toNumber env (amount st)) \<and> \<not> js_le (toNumber env (amount st)) (Fin 0)
          \<and> getNetwork env h = Inr n \<and> (n = Mainnet \<longrightarrow> startsWith (recipientAddress st) ''1'')
          \<and> p2pkh_lock env (recipientAddress st) = Inr script
          \<and> createAction env (h @ [GetNetwork])
               \<lparr>description = ''Shout BSV at an address'', inputBEEF = None, inputs = None,
                outputs = Some [\<lparr>lockingScript = script,
                  satoshis = Math_round (js_mul (toNumber env (amount st)) (Fin 100000000)),
                  outputDescription = ''BSV for recipient address''\<rparr>]\<rparr> = Inr res
          \<longrightarrow>
            sendBSV v env (recipientAddress st) (toNumber env (amount st)) h
              = (Inr (txid res),
                 h @ [GetNetwork,
                      CreateAction \<lparr>description = ''Shout BSV at an address'', inputBEEF = None,
                        inputs = None,
                        outputs = Some [\<lparr>lockingScript = script,
                          satoshis = Math_round (js_mul (toNumber env (amount st)) (Fin 100000000)),
                          outputDescription = ''BSV for recipient address''\<rparr>]\<rparr>])
          \<and> external_calls (drop (length h) (snd (snd (handleShoutBSV v env st h))))
              = [GetNetwork,
                 CreateAction \<lparr>description = ''Shout BSV at an address'', inputBEEF = None,
                   inputs = None,
                   outputs = Some [\<lparr>lockingScript = script,
                     satoshis = Math_round (js_mul (toNumber env (amount st)) (Fin 100000000)),
                     outputDescription = ''BSV for recipient address''\<rparr>]\<rparr>]
          \<and> (\<forall>t. txid res = Some t \<and> t \<noteq> [] \<longrightarrow>
                map s_txid (transactions (fst (snd (handleShoutBSV v env st h))))
                  = map s_txid (transactions st) @ [t]))
       \<and> (\<forall>p. js_mul (toNumber env (amount st)) (Fin 100000000) = Fin p \<longrightarrow>
            (\<exists>z :: int.
               Math_round (js_mul (toNumber env (amount st)) (Fin 100000000)) = Fin (of_int z)
             \<and> of_int z - 1 / 2 \<le> p \<and> p < of_int z + 1 / 2))
       \<and> (js_mul (toNumber env (amount st)) (Fin 100000000) = PInf \<longrightarrow>
            Math_round (js_mul (toNumber env (amount st)) (Fin 100000000)) = PInf)"
proof -
  have nearest: "\<forall>p. js_mul (toNumber env (amount st)) (Fin 100000000) = Fin p \<longrightarrow>
            (\<exists>z :: int.
               Math_round (js_mul (toNumber env (amount st)) (Fin 100000000)) = Fin (of_int z)
             \<and> of_int z - 1 / 2 \<le> p \<and> p < of_int z + 1 / 2)"
    using Math_round_nearest by (metis (no_types))
  have overflow: "js_mul (toNumber env (amount st)) (Fin 100000000) = PInf \<longrightarrow>
            Math_round (js_mul (toNumber env (amount st)) (Fin 100000000)) = PInf"
    by simp
  have flow: "(isNaN (toNumber env (amount st)) \<or> js_le (toNumber env (amount st)) (Fin 0) \<longrightarrow>
            handleShoutBSV v env st h
              = (Inr (), st, h @ [Alert ''Please enter a valid amount > 0.'']))
       \<and> (\<not> isNaN (toNumber env (amount st)) \<and> \<not> js_le (toNumber env (amount st)) (Fin 0)
          \<and> getNetwork env h = Inr n \<and> (n = Mainnet \<longrightarrow> startsWith (recipientAddress st) ''1'')
          \<and> p2pkh_lock env (recipientAddress st) = Inr script
          \<and> createAction env (h @ [GetNetwork])
               \<lparr>description = ''Shout BSV at an address'', inputBEEF = None, inputs = None,
                outputs = Some [\<lparr>lockingScript = script,
                  satoshis = Math_round (js_mul (toNumber env (amount st)) (Fin 100000000)),
                  outputDescription = ''BSV for recipient address''\<rparr>]\<rparr> = Inr res
          \<longrightarrow>
            sendBSV v env (recipientAddress st) (toNumber env (amount st)) h
              = (Inr (txid res),
                 h @ [GetNetwork,
                      CreateAction \<lparr>description = ''Shout BSV at an address'', inputBEEF = None,
                        inputs = None,
                        outputs = Some [\<lparr>lockingScript = script,
                          satoshis = Math_round (js_mul (toNumber env (amount st)) (Fin 100000000)),
                          outputDescription = ''BSV for recipient address''\<rparr>]\<rparr>])
          \<and> external_calls (drop (length h) (snd (snd (handleShoutBSV v env st h))))
              = [GetNetwork,
                 CreateAction \<lparr>description = ''Shout BSV at an address'', inputBEEF = None,
                   inputs = None,
                   outputs = Some [\<lparr>lockingScript = script,
                     satoshis = Math_round (js_mul (toNumber env (amount st)) (Fin 100000000)),
                     outputDescription = ''BSV for recipient address''\<rparr>]\<rparr>]
          \<and> (\<forall>t. txid res = Some t \<and> t \<noteq> [] \<longrightarrow>
                map s_txid (transactions (fst (snd (handleShoutBSV v env st h))))
                  = map s_txid (transactions st) @ [t]))"
    using assms
    by (auto simp: handleShoutBSV_def sendBSV_def send_args_def io_simps Let_def
        split: sum.splits)
  from flow nearest overflow show ?thesis
    by (intro conjI) (elim conjE, assumption)+
qed

text \<open>
  The amount \<open>abc\<close> is refused. The amount \<open>0.07\<close> times 100000000 is
  \<open>7000000 + 2^-30\<close> in binary64, not an integer; the output carries 7000000 satoshis,
  and the transaction id of the wallet is returned and recorded.
\<close>

theorem shout_amount_and_output_witness:
  "recipientAddress (shout_state ''1A1zP1eP5QGefi2DMPTfTL5SLmv7DivfNa'' ''abc'') \<noteq> []
   \<and> amount (shout_state ''1A1zP1eP5QGefi2DMPTfTL5SLmv7DivfNa'' ''abc'') \<noteq> []
   \<and> isNaN (toNumber (fixture_env Mainnet no_utxos paid sign_ok (Inr ()))
        (amount (shout_state ''1A1zP1eP5QGefi2DMPTfTL5SLmv7DivfNa'' ''abc'')))
   \<and> handleShoutBSV V1 (fixture_env Mainnet no_utxos paid sign_ok (Inr ()))
        (shout_state ''1A1zP1eP5QGefi2DMPTfTL5SLmv7DivfNa'' ''abc'') []
      = (Inr (), shout_state ''1A1zP1eP5QGefi2DMPTfTL5SLmv7DivfNa'' ''abc'',
         [] @ [Alert ''Please enter a valid amount > 0.''])
   \<and> js_mul (toNumber (fixture_env Mainnet no_utxos paid sign_ok (Inr ())) ''0.07'')
        (Fin 100000000) = Fin (7000000 + 1 / 2 ^ 30)
   \<and> (\<exists>z :: int.
         Math_round (js_mul (toNumber (fixture_env Mainnet no_utxos paid sign_ok (Inr ()))
           (amount (shout_state ''1A1zP1eP5QGefi2DMPTfTL5SLmv7DivfNa'' ''0.07''))) (Fin 100000000))
           = Fin (of_int z)
       \<and> of_int z - 1 / 2 \<le> (7000000 + 1 / 2 ^ 30 :: rat)
       \<and> (7000000 + 1 / 2 ^ 30 :: rat) < of_int z + 1 / 2)
   \<and> sendBSV V1 (fixture_env Mainnet no_utxos paid sign_ok (Inr ()))
        (recipientAddress (shout_state ''1A1zP1eP5QGefi2DMPTfTL5SLmv7DivfNa'' ''0.07''))
        (toNumber (fixture_env Mainnet no_utxos paid sign_ok (Inr ()))
           (amount (shout_state ''1A1zP1eP5QGefi2DMPTfTL5SLmv7DivfNa'' ''0.07''))) []
      = (Inr (Some ''4a5e1e''), [GetNetwork, CreateAction rounded_payment])
   \<and> map s_txid (transactions (fst (snd (handleShoutBSV V1
        (fixture_env Mainnet no_utxos paid sign_ok (Inr ()))
        (shout_state ''1A1zP1eP5QGefi2DMPTfTL5SLmv7DivfNa'' ''0.07'') []))))
      = [''4a5e1e'']"
proof -
  let ?env = "fixture_env Mainnet no_utxos paid sign_ok (Inr ())"
  let ?h = "[] :: nat list event list"
  let ?bad = "shout_state ''1A1zP1eP5QGefi2DMPTfTL5SLmv7DivfNa'' ''abc''"
  let ?ok = "shout_state ''1A1zP1eP5QGefi2DMPTfTL5SLmv7DivfNa'' ''0.07''"
  let ?script = "''76a9141A1zP1eP5QGefi2DMPTfTL5SLmv7DivfNa88ac''"
  let ?args = "\<lparr>description = ''Shout BSV at an address'', inputBEEF = None, inputs = None,
      outputs = Some [\<lparr>lockingScript = ?script,
        satoshis = Math_round (js_mul (toNumber ?env (amount ?ok)) (Fin 100000000)),
        outputDescription = ''BSV for recipient address''\<rparr>]\<rparr>"
  have b1: "recipientAddress ?bad \<noteq> []" by code_simp
  have b2: "amount ?bad \<noteq> []" by code_simp
  have b3: "isNaN (toNumber ?env (amount ?bad))" by code_simp
  have o1: "recipientAddress ?ok \<noteq> []" by code_simp
  have o2: "amount ?ok \<noteq> []" by code_simp
  have product: "js_mul (toNumber ?env ''0.07'') (Fin 100000000) = Fin (7000000 + 1 / 2 ^ 30)"
    by code_simp
  have product': "js_mul (toNumber ?env (amount ?ok)) (Fin 100000000) = Fin (7000000 + 1 / 2 ^ 30)"
    by code_simp
  have valid: "\<not> isNaN (toNumber ?env (amount ?ok)) \<and> \<not> js_le (toNumber ?env (amount ?ok)) (Fin 0)
      \<and> getNetwork ?env ?h = Inr Mainnet
      \<and> (Mainnet = Mainnet \<longrightarrow> startsWith (recipientAddress ?ok) ''1'')
      \<and> p2pkh_lock ?env (recipientAddress ?ok) = Inr ?script
      \<and> createAction ?env (?h @ [GetNetwork]) ?args = Inr paid"
    by code_simp
  have trace: "(Inr (txid paid) :: js_error + string option, ?h @ [GetNetwork, CreateAction ?args])
      = (Inr (Some ''4a5e1e''), [GetNetwork, CreateAction rounded_payment])"
    by code_simp
  have id: "txid paid = Some ''4a5e1e'' \<and> ''4a5e1e'' \<noteq> []"
    by code_simp
  have recorded: "map s_txid (transactions ?ok) @ [''4a5e1e''] = [''4a5e1e'']"
    by code_simp
  note refused = shout_amount_and_output [OF b1 b2, where env = ?env and v = V1 and h = ?h,
      THEN conjunct1, rule_format, OF disjI1, OF b3]
  note inst = shout_amount_and_output [OF o1 o2, where env = ?env and v = V1 and h = ?h
      and n = Mainnet and script = ?script and res = paid]
  note sent = inst [THEN conjunct2, THEN conjunct1, rule_format, OF valid]
  note logged = sent [THEN conjunct2, THEN conjunct2, THEN spec, THEN mp, OF id]
  note nearest = inst [THEN conjunct2, THEN conjunct2, THEN conjunct1, THEN spec, THEN mp,
      OF product']
  show ?thesis
    by (intro conjI b1 b2 b3 refused product nearest trans [OF sent [THEN conjunct1] trace]
        trans [OF logged recorded])
qed

text \<open>
  C9. The claim requires the import to be refused unless a balance that is not below
  zero, and is not zero, has been observed. The guards \<^verbatim>\<open>balance < 0\<close> and
  \<^verbatim>\<open>balance === 0\<close> miss one case: when the explorer's answer to the balance request
  lacks the two fields, \<^verbatim>\<open>handleGetBalance\<close> stores \<open>NaN\<close>; \<open>0 \<le> NaN\<close> is false, yet
  neither guard holds, and the import runs: it queries the wallet and the explorer,
  has three inputs signed and submits them.
\<close>

theorem nan_balance_passes_guards:
  "handleGetBalance (fixture_env Mainnet three_utxos pending_R sign_ok (Inr ())) viewed_state []
     = (Inr (), viewed_state\<lparr>balance := NaN\<rparr>, balance_request)
   \<and> \<not> js_le (Fin 0) (balance (viewed_state\<lparr>balance := NaN\<rparr>))
   \<and> handleImportFunds V1 (fixture_env Mainnet three_utxos pending_R sign_ok (Inr ()))
        (viewed_state\<lparr>balance := NaN\<rparr>) balance_request
     = (Inr (), viewed_state\<lparr>balance := Fin 0\<rparr>, balance_request @ signed_three_trace)"
  by code_simp

text \<open>
  The state that \<^verbatim>\<open>handleGetBalance\<close> left has an address and fails both comparisons of
  the guards, and the import that follows has made calls to the wallet.
\<close>

theorem nan_balance_passes_guards_witness:
  "truthy (mountaintopsAddress (viewed_state\<lparr>balance := NaN\<rparr>))
   \<and> \<not> js_lt (balance (viewed_state\<lparr>balance := NaN\<rparr>)) (Fin 0)
   \<and> \<not> js_eq (balance (viewed_state\<lparr>balance := NaN\<rparr>)) (Fin 0)
   \<and> \<not> js_le (Fin 0) (balance (viewed_state\<lparr>balance := NaN\<rparr>))
   \<and> snd (snd (handleImportFunds V1 (fixture_env Mainnet three_utxos pending_R sign_ok (Inr ()))
        (viewed_state\<lparr>balance := NaN\<rparr>) balance_request))
     = balance_request @ signed_three_trace
   \<and> external_calls signed_three_trace = signed_three_trace"
proof -
  have g1: "truthy (mountaintopsAddress (viewed_state\<lparr>balance := NaN\<rparr>))" by code_simp
  have g2: "\<not> js_lt (balance (viewed_state\<lparr>balance := NaN\<rparr>)) (Fin 0)" by code_simp
  have g3: "\<not> js_eq (balance (viewed_state\<lparr>balance := NaN\<rparr>)) (Fin 0)" by code_simp
  have calls: "external_calls signed_three_trace = signed_three_trace" by code_simp
  note unordered = nan_balance_passes_guards [THEN conjunct2, THEN conjunct1]
  note run = nan_balance_passes_guards [THEN conjunct2, THEN conjunct2]
  show ?thesis
    by (intro conjI g1 g2 g3 unordered calls) (simp_all only: run fst_conv snd_conv)
qed

text \<open>
  C10. In every run of the import flow, both versions, every \<^verbatim>\<open>createAction\<close> request
  carries a list of inputs and each input in it declares the unlocking-script length
  108, whatever the explorer returned.
\<close>

theorem declared_unlocking_length:
  assumes "handleImportFunds v env st h = (r, st', h')"
  shows "\<forall>c \<in> set (created (drop (length h) h')).
           \<exists>ins. inputs c = Some ins \<and> (\<forall>i \<in> set ins. unlockingScriptLength i = 108)"
  using handleImportFunds_shape [OF assms]
  by (auto simp: import_args_def mk_input_def)

text \<open>
  A run with three unspent outputs declares 108 three times.
\<close>

theorem declared_unlocking_length_witness:
  "handleImportFunds V1 (fixture_env Mainnet three_utxos pending_R sign_ok (Inr ())) funded_state []
     = (Inr (), funded_state\<lparr>balance := Fin 0\<rparr>, signed_three_trace)
   \<and> created (drop (length ([] :: nat list event list)) signed_three_trace)
       = [\<lparr>description = ''Import from the Mountaintops'', inputBEEF = Some [1],
           inputs = Some three_inputs, outputs = None\<rparr>]
   \<and> (\<exists>ins. inputs \<lparr>description = ''Import from the Mountaintops'', inputBEEF = Some [1],
                 inputs = Some three_inputs, outputs = None\<rparr> = Some ins
           \<and> (\<forall>i \<in> set ins. unlockingScriptLength i = 108))
   \<and> map unlockingScriptLength three_inputs = [108, 108, 108]"
proof -
  let ?c = "\<lparr>description = ''Import from the Mountaintops'', inputBEEF = Some [1],
           inputs = Some three_inputs, outputs = None\<rparr>"
  let ?new = "drop (length ([] :: nat list event list)) signed_three_trace"
  have run: "handleImportFunds V1 (fixture_env Mainnet three_utxos pending_R sign_ok (Inr ()))
      funded_state [] = (Inr (), funded_state\<lparr>balance := Fin 0\<rparr>, signed_three_trace)"
    by code_simp
  have cr: "created ?new = [?c]"
    by code_simp
  have mem: "?c \<in> set (created ?new)"
    unfolding cr by simp
  have shown: "map unlockingScriptLength three_inputs = [108, 108, 108]"
    by code_simp
  show ?thesis
    by (intro conjI run cr shown declared_unlocking_length [OF run, THEN bspec, OF mem])
qed

end
